theory Spec2Isabelle
  imports Main "HOL-Library.AList" "HOL-Library.Sublist"
begin

section \<open>Tokenizer class resolution of \<open>paddlenlp/transformers/auto/tokenizer.py\<close>\<close>

text \<open>
  The module picks a tokenizer class for a model identifier and hands construction over to
  that class. The embedding below follows the module function by function. Python
  exceptions are values of the type \<open>error\<close>; calls of collaborators that live in other
  modules (file resolution, \<open>AutoConfig\<close>, the module importer) are functions of an
  environment record, and each such call leaves an \<open>event\<close> in a trace, so that "was not
  called" can be stated.
\<close>

subsection \<open>Python values\<close>

text \<open>
  A tokenizer class object. \<open>sub_PretrainedTokenizer c\<close> is
  \<^verbatim>\<open>issubclass(c, PretrainedTokenizer)\<close>, \<open>sub_PretrainedTokenizerFast c\<close> is
  \<^verbatim>\<open>issubclass(c, PretrainedTokenizerFast)\<close>; \<open>pretrained_init_configuration\<close> holds the
  keys of the class attribute of that name, in order; \<open>slow_tokenizer_class\<close> is the class
  attribute of that name. Two class objects are the same object when all fields agree.
\<close>

datatype py_class = Class
  (cls_module: string)
  (cls_name: string)
  (sub_PretrainedTokenizer: bool)
  (sub_PretrainedTokenizerFast: bool)
  (pretrained_init_configuration: "string list")
  (slow_tokenizer_class: "py_class option")

text \<open>The objects \<^verbatim>\<open>TOKENIZER_MAPPING[...]\<close> may return.\<close>

datatype pyobj = ONone | OClass py_class | OStr string | OTuple "pyobj list"

text \<open>
  A configuration class (\<^verbatim>\<open>type(config)\<close>) and a configuration instance;
  \<open>cfg_tokenizer_class\<close> is the attribute \<^verbatim>\<open>config.tokenizer_class\<close>.
\<close>

datatype config_class = ConfigClass (cfg_module: string) (cfg_name: string)

record config =
  config_type :: config_class
  cfg_tokenizer_class :: "string option"

text \<open>Keyword-argument values and parsed JSON.\<close>

datatype pyval = VNone | VBool bool | VInt int | VStr string | VConfig config

datatype json = JNull | JBool bool | JNum int | JStr string | JList "json list"
  | JDict "(string \<times> json) list"

type_synonym kwargs = "(string \<times> pyval) list"

datatype error =
    NotImplementedError string
  | ValueError string
  | RuntimeError string
  | AttributeError string
  | TypeError string
  | IndexError string
  | KeyError string
  | ModuleNotFoundError string
  | OSError string

fun truthy :: "pyval \<Rightarrow> bool" where
  "truthy VNone = False"
| "truthy (VBool b) = b"
| "truthy (VInt i) = (i \<noteq> 0)"
| "truthy (VStr s) = (s \<noteq> [])"
| "truthy (VConfig c) = True"

fun truthy_obj :: "pyobj \<Rightarrow> bool" where
  "truthy_obj ONone = False"
| "truthy_obj (OClass c) = True"
| "truthy_obj (OStr s) = (s \<noteq> [])"
| "truthy_obj (OTuple xs) = (xs \<noteq> [])"

definition endswith :: "string \<Rightarrow> string \<Rightarrow> bool" where
  "endswith s suf = (drop (length s - length suf) s = suf)"

definition dict_get :: "('k \<times> 'v) list \<Rightarrow> 'k \<Rightarrow> 'v \<Rightarrow> 'v" where
  "dict_get d k dflt = (case map_of d k of None \<Rightarrow> dflt | Some v \<Rightarrow> v)"

subsection \<open>Calls of collaborators, and results with a trace\<close>

datatype event =
    ResolveFilePath string
  | JsonLoad string
  | AutoConfigFromPretrained string
  | TokenizerClassFromName string
  | MappingGetItem config_class
  | LoggerInfo string
  | Print string

type_synonym 'a run = "(error + 'a) \<times> event list"

definition ret :: "'a \<Rightarrow> 'a run" where
  "ret x = (Inr x, [])"

definition raise :: "error \<Rightarrow> 'a run" where
  "raise e = (Inl e, [])"

definition emit :: "event \<Rightarrow> unit run" where
  "emit ev = (Inr (), [ev])"

definition lift :: "error + 'a \<Rightarrow> 'a run" where
  "lift r = (r, [])"

definition bind :: "'a run \<Rightarrow> ('a \<Rightarrow> 'b run) \<Rightarrow> 'b run" where
  "bind m f = (case m of
      (Inl e, t) \<Rightarrow> (Inl e, t)
    | (Inr x, t) \<Rightarrow> (case f x of (r, t') \<Rightarrow> (r, t @ t')))"

definition seq :: "unit run \<Rightarrow> 'b run \<Rightarrow> 'b run" where
  "seq m k = bind m (\<lambda>_. k)"

subsection \<open>\<open>TOKENIZER_MAPPING_NAMES\<close> and \<open>get_mapping_tokenizers\<close>\<close>

text \<open>
  A value of the table is a class name, or a pair of a reference part (one name or a tuple
  of names) and an optional accelerated name.
\<close>

datatype slow_names = One string | Several "string list"

datatype tokenizer_names = Only string | SlowFast slow_names "string option"

definition fast_if :: "bool \<Rightarrow> string \<Rightarrow> string option" where
  "fast_if avail n = (if avail then Some n else None)"

text \<open>The table of the non-\<^verbatim>\<open>TYPE_CHECKING\<close> branch; the argument is \<^verbatim>\<open>is_tokenizers_available()\<close>.\<close>

definition TOKENIZER_MAPPING_NAMES :: "bool \<Rightarrow> (string \<times> tokenizer_names) list" where
  "TOKENIZER_MAPPING_NAMES avail =
   [(''albert'', SlowFast (Several [''AlbertChineseTokenizer'', ''AlbertEnglishTokenizer'']) None),
    (''bart'', Only ''BartTokenizer''),
    (''bert'', SlowFast (One ''BertTokenizer'') (fast_if avail ''BertTokenizerFast'')),
    (''blenderbot'', Only ''BlenderbotTokenizer''),
    (''bloom'', SlowFast (One ''BloomTokenizer'') (fast_if avail ''BloomTokenizerFast'')),
    (''clip'', Only ''CLIPTokenizer''),
    (''codegen'', Only ''CodeGenTokenizer''),
    (''convbert'', Only ''ConvBertTokenizer''),
    (''ctrl'', Only ''CTRLTokenizer''),
    (''distilbert'', Only ''DistilBertTokenizer''),
    (''electra'', Only ''ElectraTokenizer''),
    (''ernie'', Only ''ErnieTokenizer''),
    (''ernie_m'', Only ''ErnieMTokenizer''),
    (''fnet'', Only ''FNetTokenizer''),
    (''funnel'', Only ''FunnelTokenizer''),
    (''gemma'', Only ''GemmaTokenizer''),
    (''jamba'', Only ''JambaTokenizer''),
    (''layoutlm'', Only ''LayoutLMTokenizer''),
    (''layoutlmv2'', Only ''LayoutLMv2Tokenizer''),
    (''layoutxlm'', Only ''LayoutXLMTokenizer''),
    (''llama'', SlowFast (Several [''LlamaTokenizer'', ''Llama3Tokenizer''])
                  (fast_if avail ''LlamaTokenizerFast'')),
    (''luke'', Only ''LukeTokenizer''),
    (''mamba'', Only ''MambaTokenizer''),
    (''mbart'', SlowFast (Several [''MBartTokenizer'', ''MBart50Tokenizer'']) None),
    (''mobilebert'', Only ''MobileBertTokenizer''),
    (''mpnet'', Only ''MPNetTokenizer''),
    (''nezha'', Only ''NeZhaTokenizer''),
    (''pegasus'', Only ''PegasusChineseTokenizer''),
    (''prophetnet'', Only ''ProphetNetTokenizer''),
    (''reformer'', Only ''ReformerTokenizer''),
    (''rembert'', Only ''RemBertTokenizer''),
    (''roberta'', Only ''RobertaBPETokenizer''),
    (''roformer'', Only ''RoFormerTokenizer''),
    (''speecht5'', Only ''SpeechT5Tokenizer''),
    (''squeezebert'', Only ''SqueezeBertTokenizer''),
    (''t5'', Only ''T5Tokenizer''),
    (''xlm'', Only ''XLMTokenizer''),
    (''xlnet'', Only ''XLNetTokenizer''),
    (''bert_japanese'', Only ''BertJapaneseTokenizer''),
    (''bigbird'', Only ''BigBirdTokenizer''),
    (''blenderbot_small'', Only ''BlenderbotSmallTokenizer''),
    (''chatglm'', Only ''ChatGLMTokenizer''),
    (''chatglm_v2'', Only ''ChatGLMv2Tokenizer''),
    (''chinesebert'', Only ''ChineseBertTokenizer''),
    (''dallebart'', Only ''DalleBartTokenizer''),
    (''ernie_ctm'', Only ''ErnieCtmTokenizer''),
    (''ernie_doc'', Only ''ErnieDocBPETokenizer''),
    (''ernie_gram'', Only ''ErnieGramTokenizer''),
    (''ernie_layout'', Only ''ErnieLayoutTokenizer''),
    (''ernie_code'', Only ''ErnieCodeTokenizer''),
    (''megatronbert'', Only ''MegatronBertTokenizer''),
    (''nystromformer'', Only ''NystromformerTokenizer''),
    (''ppminilm'', Only ''PPMiniLMTokenizer''),
    (''roformerv2'', Only ''RoFormerv2Tokenizer''),
    (''skep'', Only ''SkepTokenizer''),
    (''tinybert'', Only ''TinyBertTokenizer''),
    (''unified_transformer'', Only ''UnifiedTransformerTokenizer''),
    (''unimo'', Only ''UNIMOTokenizer''),
    (''gpt'', SlowFast (Several [''GPTTokenizer'', ''GPTChineseTokenizer'']) None),
    (''gau_alpha'', Only ''GAUAlphaTokenizer''),
    (''artist'', Only ''ArtistTokenizer''),
    (''chineseclip'', Only ''ChineseCLIPTokenizer''),
    (''ernie_vil'', Only ''ErnieViLTokenizer''),
    (''glm'', Only ''GLMGPT2Tokenizer''),
    (''qwen'', Only ''QWenTokenizer''),
    (''qwen2'', SlowFast (One ''Qwen2Tokenizer'') (fast_if avail ''Qwen2TokenizerFast'')),
    (''yuan'', Only ''YuanTokenizer'')]"

fun get_mapping_tokenizers :: "tokenizer_names \<Rightarrow> bool \<Rightarrow> string list" where
  "get_mapping_tokenizers (Only n) with_fast = [n]"
| "get_mapping_tokenizers (SlowFast tokenizer_slow tokenizer_fast) with_fast =
     (case tokenizer_slow of Several ns \<Rightarrow> ns | One n \<Rightarrow> [n]) @
     (case tokenizer_fast of
        Some f \<Rightarrow> (if with_fast then [f] else [])
      | None \<Rightarrow> [])"

subsection \<open>Importing modules\<close>

text \<open>
  \<open>modules name\<close> is the namespace of the module \<open>name\<close>, \<open>None\<close> when there is no such
  module (\<^verbatim>\<open>importlib.import_module\<close> raises \<^verbatim>\<open>ModuleNotFoundError\<close>).
\<close>

type_synonym modules = "string \<Rightarrow> (string \<Rightarrow> py_class option) option"

definition import_module :: "modules \<Rightarrow> string \<Rightarrow> error + (string \<Rightarrow> py_class option)" where
  "import_module mods name =
     (case mods name of None \<Rightarrow> Inl (ModuleNotFoundError name) | Some ns \<Rightarrow> Inr ns)"

definition getattr :: "(string \<Rightarrow> py_class option) \<Rightarrow> string \<Rightarrow> error + py_class" where
  "getattr ns a = (case ns a of None \<Rightarrow> Inl (AttributeError a) | Some c \<Rightarrow> Inr c)"

subsection \<open>\<open>get_configurations\<close>\<close>

text \<open>
  The table from the tuple of identifiers a reference class declares to that class, an
  \<^verbatim>\<open>OrderedDict\<close>: assigning to a key that is present replaces the value in place, a new key
  goes to the end (\<open>AList.update\<close>).
\<close>

type_synonym tokenizer_mapping = "(string list \<times> py_class) list"

fun get_configurations_keys ::
  "modules \<Rightarrow> string \<Rightarrow> string list \<Rightarrow> tokenizer_mapping \<Rightarrow> error + tokenizer_mapping" where
  "get_configurations_keys mods class_name [] MAPPING_NAMES = Inr MAPPING_NAMES"
| "get_configurations_keys mods class_name (key # keys) MAPPING_NAMES =
     (case import_module mods (''paddlenlp.transformers.'' @ class_name @ ''.tokenizer'') of
        Inl e \<Rightarrow> Inl e
      | Inr import_class \<Rightarrow>
          (case getattr import_class key of
             Inl e \<Rightarrow> Inl e
           | Inr tokenizer_name \<Rightarrow>
               get_configurations_keys mods class_name keys
                 (AList.update (pretrained_init_configuration tokenizer_name) tokenizer_name
                    MAPPING_NAMES)))"

fun get_configurations_loop ::
  "modules \<Rightarrow> (string \<times> tokenizer_names) list \<Rightarrow> tokenizer_mapping \<Rightarrow> error + tokenizer_mapping"
  where
  "get_configurations_loop mods [] MAPPING_NAMES = Inr MAPPING_NAMES"
| "get_configurations_loop mods ((class_name, values) # rest) MAPPING_NAMES =
     (case get_configurations_keys mods class_name (get_mapping_tokenizers values False)
             MAPPING_NAMES of
        Inl e \<Rightarrow> Inl e
      | Inr m \<Rightarrow> get_configurations_loop mods rest m)"

definition get_configurations :: "bool \<Rightarrow> modules \<Rightarrow> error + tokenizer_mapping" where
  "get_configurations avail mods =
     get_configurations_loop mods (TOKENIZER_MAPPING_NAMES avail) []"

subsection \<open>The config-class table \<open>TOKENIZER_MAPPING\<close>\<close>

text \<open>
  Modelled from the spec: the class \<^verbatim>\<open>_LazyAutoMapping\<close> (\<^verbatim>\<open>auto/factory.py\<close>), of which
  \<^verbatim>\<open>TOKENIZER_MAPPING\<close> is an instance, is not among the sources. The spec's Config-Class
  Table maps a configuration type to its tokenizer classes, is populated lazily for the
  built-in architectures, and accepts entries registered at run time, "guarding against
  accidental overwrite unless explicitly allowed". \<open>builtin_content\<close> is what a lookup of a
  built-in configuration type yields, \<open>extra_content\<close> is the attribute \<^verbatim>\<open>_extra_content\<close>
  this module reads; its values are the pairs \<^verbatim>\<open>(slow, fast)\<close> that \<open>register\<close> stores.
\<close>

record lazy_mapping =
  builtin_content :: "config_class \<Rightarrow> pyobj option"
  extra_content :: "(config_class \<times> (py_class option \<times> py_class option)) list"

definition obj_of :: "py_class option \<Rightarrow> pyobj" where
  "obj_of c = (case c of None \<Rightarrow> ONone | Some k \<Rightarrow> OClass k)"

text \<open>Modelled from the spec: \<^verbatim>\<open>_LazyAutoMapping.__getitem__\<close>, run-time entries first.\<close>

definition mapping_getitem :: "lazy_mapping \<Rightarrow> config_class \<Rightarrow> error + pyobj" where
  "mapping_getitem m k =
     (case map_of (extra_content m) k of
        Some (s, f) \<Rightarrow> Inr (OTuple [obj_of s, obj_of f])
      | None \<Rightarrow>
          (case builtin_content m k of
             Some v \<Rightarrow> Inr v
           | None \<Rightarrow> Inl (KeyError (cfg_name k))))"

text \<open>
  Modelled from the spec: \<^verbatim>\<open>_LazyAutoMapping.register\<close>; a built-in configuration type is
  replaced only with \<^verbatim>\<open>exist_ok\<close>.
\<close>

definition mapping_register ::
  "lazy_mapping \<Rightarrow> config_class \<Rightarrow> py_class option \<times> py_class option \<Rightarrow> bool
     \<Rightarrow> error + lazy_mapping" where
  "mapping_register m k v exist_ok =
     (if builtin_content m k \<noteq> None \<and> \<not> exist_ok
      then Inl (ValueError (cfg_name k @ '' is already used by a built-in model.''))
      else Inr (m\<lparr>extra_content := AList.update k v (extra_content m)\<rparr>))"

subsection \<open>The environment\<close>

text \<open>
  What the module imports from elsewhere and the module-level state it reads.
  \<open>tokenizer_mapping_attr\<close> is the class attribute \<^verbatim>\<open>AutoTokenizer._tokenizer_mapping\<close>, set
  to \<^verbatim>\<open>get_configurations()\<close> when the class is created.
\<close>

record env =
  is_tokenizers_available :: bool
  sys_modules :: modules
  PretrainedTokenizerFast :: py_class
  model_type_to_module_name :: "string \<Rightarrow> string"
  config_class_to_model_type :: "string \<Rightarrow> string option"
  resolve_file_path :: "string \<Rightarrow> kwargs \<Rightarrow> error + string option"
  json_load :: "string \<Rightarrow> error + json"
  AutoConfig_from_pretrained :: "string \<Rightarrow> kwargs \<Rightarrow> error + config"
  tokenizer_mapping_attr :: tokenizer_mapping
  TOKENIZER_MAPPING :: lazy_mapping

subsection \<open>\<open>tokenizer_class_from_name\<close>\<close>

text \<open>
  The three nested \<^verbatim>\<open>try\<close> blocks: only \<^verbatim>\<open>AttributeError\<close> moves on to the next module, a
  failing import propagates.
\<close>

definition load_tokenizer_class :: "modules \<Rightarrow> string \<Rightarrow> string \<Rightarrow> error + py_class" where
  "load_tokenizer_class mods module_name class_name =
     (case import_module mods (''paddlenlp.transformers.'' @ module_name) of
        Inl e \<Rightarrow> Inl e
      | Inr m1 \<Rightarrow>
     (case m1 class_name of
        Some c \<Rightarrow> Inr c
      | None \<Rightarrow>
     (case import_module mods (''paddlenlp.transformers.'' @ module_name @ ''.tokenizer'') of
        Inl e \<Rightarrow> Inl e
      | Inr m2 \<Rightarrow>
     (case m2 class_name of
        Some c \<Rightarrow> Inr c
      | None \<Rightarrow>
     (case import_module mods
             (''paddlenlp.transformers.'' @ module_name @ ''.tokenizer_fast'') of
        Inl e \<Rightarrow> Inl e
      | Inr m3 \<Rightarrow>
     (case m3 class_name of
        Some c \<Rightarrow> Inr c
      | None \<Rightarrow>
          Inl (ValueError (''Tokenizer class '' @ class_name
                 @ '' is not currently imported.''))))))))"

text \<open>The first loop: the first architecture that lists the name decides.\<close>

fun from_mapping_names ::
  "modules \<Rightarrow> (string \<Rightarrow> string) \<Rightarrow> (string \<times> tokenizer_names) list \<Rightarrow> string
     \<Rightarrow> (error + py_class) option" where
  "from_mapping_names mods mt2mn [] class_name = None"
| "from_mapping_names mods mt2mn ((module_name, tokenizers) # rest) class_name =
     (if class_name \<in> set (get_mapping_tokenizers tokenizers True)
      then Some (load_tokenizer_class mods (mt2mn module_name) class_name)
      else from_mapping_names mods mt2mn rest class_name)"

text \<open>The second loop, over \<^verbatim>\<open>TOKENIZER_MAPPING._extra_content\<close>; \<open>None\<close> has no \<^verbatim>\<open>__name__\<close>.\<close>

fun from_extra_content ::
  "(config_class \<times> (py_class option \<times> py_class option)) list \<Rightarrow> string \<Rightarrow> py_class option"
  where
  "from_extra_content [] class_name = None"
| "from_extra_content ((config, (s, f)) # rest) class_name =
     (if map_option cls_name s = Some class_name then s
      else if map_option cls_name f = Some class_name then f
      else from_extra_content rest class_name)"

definition tokenizer_class_from_name :: "env \<Rightarrow> string \<Rightarrow> error + py_class option" where
  "tokenizer_class_from_name E class_name =
     (if class_name = ''PretrainedTokenizerFast'' then Inr (Some (PretrainedTokenizerFast E))
      else
       (case from_mapping_names (sys_modules E) (model_type_to_module_name E)
               (TOKENIZER_MAPPING_NAMES (is_tokenizers_available E)) class_name of
          Some (Inl e) \<Rightarrow> Inl e
        | Some (Inr c) \<Rightarrow> Inr (Some c)
        | None \<Rightarrow>
           (case from_extra_content (extra_content (TOKENIZER_MAPPING E)) class_name of
              Some c \<Rightarrow> Inr (Some c)
            | None \<Rightarrow>
               (case import_module (sys_modules E) ''paddlenlp'' of
                  Inl e \<Rightarrow> Inl e
                | Inr main_module \<Rightarrow> Inr (main_module class_name)))))"

subsection \<open>\<open>get_tokenizer_config\<close>\<close>

text \<open>The named parameters the function passes on to \<^verbatim>\<open>resolve_file_path\<close>, with their defaults.\<close>

definition fetch_options :: "kwargs \<Rightarrow> kwargs" where
  "fetch_options kw =
     [(''cache_dir'', dict_get kw ''cache_dir'' VNone),
      (''force_download'', dict_get kw ''force_download'' (VBool False)),
      (''resume_download'', dict_get kw ''resume_download'' VNone),
      (''proxies'', dict_get kw ''proxies'' VNone),
      (''token'', dict_get kw ''token'' VNone),
      (''revision'', dict_get kw ''revision'' VNone),
      (''local_files_only'', dict_get kw ''local_files_only'' (VBool False)),
      (''subfolder'', dict_get kw ''subfolder'' (VStr []))]"

definition not_located :: string where
  "not_located =
     ''Could not locate the tokenizer configuration file, will try to use the model config instead.''"

definition get_tokenizer_config :: "env \<Rightarrow> string \<Rightarrow> kwargs \<Rightarrow> json run" where
  "get_tokenizer_config E pretrained_model_name_or_path kw =
     seq (emit (ResolveFilePath pretrained_model_name_or_path))
     (bind (lift (resolve_file_path E pretrained_model_name_or_path (fetch_options kw)))
       (\<lambda>resolved_config_file.
          case resolved_config_file of
            None \<Rightarrow>
              seq (emit (LoggerInfo not_located)) (ret (JDict []))
          | Some f \<Rightarrow> seq (emit (JsonLoad f)) (lift (json_load E f))))"

subsection \<open>\<open>AutoTokenizer._get_tokenizer_class_from_config\<close>\<close>

fun truthy_json :: "json \<Rightarrow> bool" where
  "truthy_json JNull = False"
| "truthy_json (JBool b) = b"
| "truthy_json (JNum n) = (n \<noteq> 0)"
| "truthy_json (JStr s) = (s \<noteq> [])"
| "truthy_json (JList xs) = (xs \<noteq> [])"
| "truthy_json (JDict d) = (d \<noteq> [])"

text \<open>
  The two \<^verbatim>\<open>pop\<close> calls of the helper: \<^verbatim>\<open>init_class\<close> first, \<^verbatim>\<open>tokenizer_class\<close> when that
  gave \<^verbatim>\<open>None\<close>.
\<close>

definition declared_init_class :: "(string \<times> json) list \<Rightarrow> json" where
  "declared_init_class init_kwargs =
     (let init_class = dict_get init_kwargs ''init_class'' JNull
      in if init_class = JNull then dict_get init_kwargs ''tokenizer_class'' JNull
         else init_class)"

text \<open>
  The helper reads \<^verbatim>\<open>cls._name_mapping\<close> in both branches. The class body of
  \<^verbatim>\<open>AutoTokenizer\<close> defines \<^verbatim>\<open>_tokenizer_mapping\<close> only, so on \<^verbatim>\<open>AutoTokenizer\<close> itself
  that read raises \<^verbatim>\<open>AttributeError\<close>. No function of the module calls the helper.
\<close>

definition get_tokenizer_class_from_config ::
  "env \<Rightarrow> string \<Rightarrow> string \<Rightarrow> pyval \<Rightarrow> py_class run" where
  "get_tokenizer_class_from_config E pretrained_model_name_or_path config_file_path use_fast =
     (if use_fast \<noteq> VNone then raise (ValueError ''use_fast is deprecated'')
      else
        seq (emit (JsonLoad config_file_path))
        (bind (lift (json_load E config_file_path))
          (\<lambda>init_kwargs.
             case init_kwargs of
               JDict d \<Rightarrow>
                 (if truthy_json (declared_init_class d)
                  then raise (AttributeError ''_name_mapping'')
                  else seq (emit (LoggerInfo
                         ''We use pattern recognition to recognize the Tokenizer class.''))
                         (raise (AttributeError ''_name_mapping'')))
             | JList xs \<Rightarrow> raise (TypeError ''pop'')
             | _ \<Rightarrow> raise (AttributeError ''pop''))))"

subsection \<open>\<open>AutoTokenizer.from_pretrained\<close>\<close>

text \<open>
  Every successful path of \<^verbatim>\<open>from_pretrained\<close> ends in
  \<^verbatim>\<open>return tokenizer_class.from_pretrained(pretrained_model_name_or_path, *model_args, **kwargs)\<close>;
  the result of the model is that call: the class, the identifier and the arguments
  handed over.
\<close>

datatype call = FromPretrained py_class string "pyval list" kwargs

definition apos :: string where
  "apos = [CHR 0x27]"

definition newline :: string where
  "newline = [CHR 0x0A]"

definition class_repr :: "py_class \<Rightarrow> string" where
  "class_repr c = ''<class '' @ apos @ cls_module c @ ''.'' @ cls_name c @ apos @ ''>''"

definition using_message :: "string \<Rightarrow> string \<Rightarrow> string" where
  "using_message what name =
     ''We are using '' @ what @ '' to load '' @ apos @ name @ apos @ ''.''"

definition cannot_load_message :: "string \<Rightarrow> string" where
  "cannot_load_message name =
     ''Can'' @ apos @ ''t load tokenizer for '' @ apos @ name @ apos @ ''.'' @ newline
     @ ''Please make sure that '' @ apos @ name @ apos @ '' is:'' @ newline
     @ ''- a correct model-identifier of built-in pretrained models,'' @ newline
     @ ''- or a correct model-identifier of community-contributed pretrained models,'' @ newline
     @ ''- or the correct path to a directory containing relevant tokenizer files.'' @ newline"

text \<open>The inner iterations of the built-in branch: the first entry that lists the identifier.\<close>

fun find_builtin :: "tokenizer_mapping \<Rightarrow> string \<Rightarrow> py_class option" where
  "find_builtin [] name = None"
| "find_builtin ((names, tokenizer_class) # rest) name =
     (if name \<in> set names then Some tokenizer_class else find_builtin rest name)"

text \<open>\<^verbatim>\<open>x.from_pretrained(...)\<close> on an object: only a class has the attribute.\<close>

definition obj_from_pretrained :: "pyobj \<Rightarrow> string \<Rightarrow> pyval list \<Rightarrow> kwargs \<Rightarrow> error + call" where
  "obj_from_pretrained x name model_args kw =
     (case x of
        OClass c \<Rightarrow> Inr (FromPretrained c name model_args kw)
      | _ \<Rightarrow> Inl (AttributeError ''from_pretrained''))"

text \<open>
  \<^verbatim>\<open>x[0]\<close>: a tuple gives its first element; a class object is not subscriptable (the
  tokenizer classes define no \<^verbatim>\<open>__class_getitem__\<close>).
\<close>

definition getitem0 :: "pyobj \<Rightarrow> error + pyobj" where
  "getitem0 x =
     (case x of
        OTuple [] \<Rightarrow> Inl (IndexError ''tuple index out of range'')
      | OTuple (y # ys) \<Rightarrow> Inr y
      | OStr [] \<Rightarrow> Inl (IndexError ''string index out of range'')
      | OStr (c # cs) \<Rightarrow> Inr (OStr [c])
      | _ \<Rightarrow> Inl (TypeError ''object is not subscriptable''))"

definition obj_repr :: "pyobj \<Rightarrow> string" where
  "obj_repr x = (case x of OClass c \<Rightarrow> class_repr c | OStr s \<Rightarrow> s | ONone \<Rightarrow> ''None''
                 | OTuple xs \<Rightarrow> ''(...)'')"

text \<open>
  \<^verbatim>\<open>isinstance(v, (list, tuple))\<close> followed by the unpacking
  \<^verbatim>\<open>(tokenizer_class_py, tokenizer_class_fast) = v\<close>, else \<^verbatim>\<open>tokenizer_class_fast = None\<close>.
\<close>

definition unpack_py_fast :: "pyobj \<Rightarrow> error + pyobj \<times> pyobj" where
  "unpack_py_fast v =
     (case v of
        OTuple [a, b] \<Rightarrow> Inr (a, b)
      | OTuple xs \<Rightarrow> Inl (ValueError ''wrong number of values to unpack'')
      | _ \<Rightarrow> Inr (v, ONone))"

text \<open>Lines 430 to 442: the class name that a configuration declares.\<close>

definition resolve_declared ::
  "env \<Rightarrow> pyval \<Rightarrow> string \<Rightarrow> string \<Rightarrow> pyval list \<Rightarrow> kwargs \<Rightarrow> call run" where
  "resolve_declared E use_fast config_tokenizer_class name model_args kw =
     bind (if truthy use_fast \<and> \<not> endswith config_tokenizer_class ''Fast''
           then seq (emit (TokenizerClassFromName (config_tokenizer_class @ ''Fast'')))
                  (lift (tokenizer_class_from_name E (config_tokenizer_class @ ''Fast'')))
           else ret None)
       (\<lambda>tokenizer_class.
     bind (case tokenizer_class of
             Some c \<Rightarrow> ret (Some c)
           | None \<Rightarrow> seq (emit (TokenizerClassFromName config_tokenizer_class))
                       (lift (tokenizer_class_from_name E config_tokenizer_class)))
       (\<lambda>tokenizer_class.
          case tokenizer_class of
            None \<Rightarrow> raise (ValueError (''Tokenizer class '' @ config_tokenizer_class
                      @ '' does not exist or is not currently imported.''))
          | Some c \<Rightarrow> ret (FromPretrained c name model_args kw)))"

text \<open>\<^verbatim>\<open>type(config)\<close> for the values a \<^verbatim>\<open>config\<close> keyword can hold.\<close>

fun type_of :: "pyval \<Rightarrow> config_class" where
  "type_of VNone = ConfigClass ''builtins'' ''NoneType''"
| "type_of (VBool b) = ConfigClass ''builtins'' ''bool''"
| "type_of (VInt i) = ConfigClass ''builtins'' ''int''"
| "type_of (VStr s) = ConfigClass ''builtins'' ''str''"
| "type_of (VConfig c) = config_type c"

text \<open>Lines 446 to 476: the class pair registered for the type of the model configuration.\<close>

definition resolve_model_type ::
  "env \<Rightarrow> pyval \<Rightarrow> pyval \<Rightarrow> string \<Rightarrow> pyval list \<Rightarrow> kwargs \<Rightarrow> call run" where
  "resolve_model_type E use_fast config name model_args kw =
     (case config_class_to_model_type E (cfg_name (type_of config)) of
        None \<Rightarrow> raise (RuntimeError (cannot_load_message name))
      | Some model_type \<Rightarrow>
          seq (emit (MappingGetItem (type_of config)))
          (bind (lift (mapping_getitem (TOKENIZER_MAPPING E) (type_of config)))
            (\<lambda>v.
          bind (lift (unpack_py_fast v))
            (\<lambda>(tokenizer_class_py, tokenizer_class_fast).
               if truthy_obj tokenizer_class_fast
                  \<and> (truthy use_fast \<or> tokenizer_class_py = ONone)
               then lift (obj_from_pretrained tokenizer_class_fast name model_args kw)
               else if tokenizer_class_py \<noteq> ONone
               then (case tokenizer_class_py of
                       OStr s \<Rightarrow> raise (AttributeError ''from_pretrained'')
                     | _ \<Rightarrow>
                         bind (lift (getitem0 tokenizer_class_py))
                           (\<lambda>first.
                              seq (emit (Print (using_message (obj_repr first) name)))
                                (lift (obj_from_pretrained first name model_args kw))))
               else raise (ValueError
                 ''This tokenizer cannot be instantiated. Please make sure you have `sentencepiece` installed in order to use this tokenizer.'')))))"

text \<open>\<^verbatim>\<open>tokenizer_config.get("tokenizer_class")\<close>.\<close>

definition json_get :: "json \<Rightarrow> string \<Rightarrow> error + json" where
  "json_get j k = (case j of JDict d \<Rightarrow> Inr (dict_get d k JNull)
                   | _ \<Rightarrow> Inl (AttributeError ''get''))"

text \<open>
  A declared class that is neither \<^verbatim>\<open>null\<close> nor a string: \<^verbatim>\<open>endswith\<close> is missing when
  \<^verbatim>\<open>use_fast\<close> holds; otherwise \<^verbatim>\<open>tokenizer_class_from_name\<close> compares it with every name
  without a match and \<^verbatim>\<open>hasattr(main_module, class_name)\<close> rejects the attribute name.
  The trace records lookups by their class name, so this one, whose argument is not a
  string, leaves no event.
\<close>

definition resolve_declared_non_string :: "env \<Rightarrow> pyval \<Rightarrow> call run" where
  "resolve_declared_non_string E use_fast =
     (if truthy use_fast then raise (AttributeError ''endswith'')
      else (case import_module (sys_modules E) ''paddlenlp'' of
              Inl e \<Rightarrow> raise e
            | Inr main_module \<Rightarrow> raise (TypeError ''attribute name must be string'')))"

text \<open>
  The keyword arguments after the three \<^verbatim>\<open>pop\<close> calls and the assignment of
  \<^verbatim>\<open>_from_auto\<close>. A keyword named like the first parameter cannot occur: Python rejects
  such a call of \<^verbatim>\<open>from_pretrained\<close> itself.
\<close>

definition forwarded_kwargs :: "kwargs \<Rightarrow> kwargs" where
  "forwarded_kwargs kw =
     AList.delete ''tokenizer_type'' (AList.delete ''use_fast''
       (AList.update ''_from_auto'' (VBool True) (AList.delete ''config'' kw)))"

text \<open>
  Lines 424 to 429: the declared class name, from the tokenizer configuration and, when
  that has none, from the model configuration; the model configuration is fetched unless
  the caller passed one. The result is the pair of \<^verbatim>\<open>config\<close> and
  \<^verbatim>\<open>config_tokenizer_class\<close> after these lines.
\<close>

definition declared_tokenizer_class ::
  "env \<Rightarrow> pyval \<Rightarrow> string \<Rightarrow> kwargs \<Rightarrow> (pyval \<times> json) run" where
  "declared_tokenizer_class E config name kw =
     bind (get_tokenizer_config E name kw)
       (\<lambda>tokenizer_config.
     bind (lift (json_get tokenizer_config ''tokenizer_class''))
       (\<lambda>config_tokenizer_class.
          if config_tokenizer_class = JNull
          then bind (case config of
                       VConfig c \<Rightarrow> ret c
                     | _ \<Rightarrow> seq (emit (AutoConfigFromPretrained name))
                              (lift (AutoConfig_from_pretrained E name kw)))
                 (\<lambda>c. ret (VConfig c,
                            (case cfg_tokenizer_class c of
                               None \<Rightarrow> JNull | Some n \<Rightarrow> JStr n)))
          else ret (config, config_tokenizer_class)))"

definition from_pretrained :: "env \<Rightarrow> string \<Rightarrow> pyval list \<Rightarrow> kwargs \<Rightarrow> call run" where
  "from_pretrained E pretrained_model_name_or_path model_args kwargs0 =
     (let config0 = dict_get kwargs0 ''config'' VNone;
          use_fast = dict_get kwargs0 ''use_fast'' (VBool False);
          tokenizer_type = dict_get kwargs0 ''tokenizer_type'' VNone;
          kw = forwarded_kwargs kwargs0
      in
      if tokenizer_type \<noteq> VNone
      then raise (NotImplementedError ''tokenizer_type is not supported yet.'')
      else
       (case (if pretrained_model_name_or_path
                   \<in> set (concat (map fst (tokenizer_mapping_attr E)))
              then find_builtin (tokenizer_mapping_attr E) pretrained_model_name_or_path
              else None) of
          Some tokenizer_class \<Rightarrow>
            seq (emit (LoggerInfo
                   (using_message (class_repr tokenizer_class) pretrained_model_name_or_path)))
              (ret (FromPretrained tokenizer_class pretrained_model_name_or_path model_args kw))
        | None \<Rightarrow>
            bind (declared_tokenizer_class E config0 pretrained_model_name_or_path kw)
              (\<lambda>(config, config_tokenizer_class).
                 case config_tokenizer_class of
                   JNull \<Rightarrow>
                     resolve_model_type E use_fast config pretrained_model_name_or_path
                       model_args kw
                 | JStr n \<Rightarrow>
                     resolve_declared E use_fast n pretrained_model_name_or_path
                       model_args kw
                 | _ \<Rightarrow> resolve_declared_non_string E use_fast)))"

subsection \<open>\<open>AutoTokenizer.register\<close>\<close>

definition mismatch_message :: "py_class option \<Rightarrow> py_class \<Rightarrow> string" where
  "mismatch_message has passed =
     ''The fast tokenizer class you are passing has a `slow_tokenizer_class` attribute that is not consistent with the slow tokenizer class you passed (fast tokenizer has ''
     @ (case has of None \<Rightarrow> ''None'' | Some c \<Rightarrow> class_repr c)
     @ '' and you passed '' @ class_repr passed
     @ ''. Fix one of those so they match!''"

definition register ::
  "lazy_mapping \<Rightarrow> config_class \<Rightarrow> py_class option \<Rightarrow> py_class option \<Rightarrow> bool
     \<Rightarrow> error + lazy_mapping" where
  "register M config_class slow_tokenizer_class0 fast_tokenizer_class0 exist_ok =
     (if slow_tokenizer_class0 = None \<and> fast_tokenizer_class0 = None
      then Inl (ValueError
        ''You need to pass either a `slow_tokenizer_class` or a `fast_tokenizer_class'')
      else if (case slow_tokenizer_class0 of
                 Some s \<Rightarrow> sub_PretrainedTokenizerFast s | None \<Rightarrow> False)
      then Inl (ValueError ''You passed a fast tokenizer in the `slow_tokenizer_class`.'')
      else if (case fast_tokenizer_class0 of
                 Some f \<Rightarrow> sub_PretrainedTokenizer f | None \<Rightarrow> False)
      then Inl (ValueError ''You passed a slow tokenizer in the `fast_tokenizer_class`.'')
      else
       (case (case (slow_tokenizer_class0, fast_tokenizer_class0) of
                (Some s, Some f) \<Rightarrow>
                  (if sub_PretrainedTokenizerFast f \<and> slow_tokenizer_class f \<noteq> Some s
                   then Some (mismatch_message (slow_tokenizer_class f) s) else None)
              | _ \<Rightarrow> None) of
          Some msg \<Rightarrow> Inl (ValueError msg)
        | None \<Rightarrow>
           (case map_of (extra_content M) config_class of
              Some (existing_slow, existing_fast) \<Rightarrow>
                mapping_register M config_class
                  (if slow_tokenizer_class0 = None then existing_slow
                   else slow_tokenizer_class0,
                   if fast_tokenizer_class0 = None then existing_fast
                   else fast_tokenizer_class0)
                  exist_ok
            | None \<Rightarrow>
                mapping_register M config_class
                  (slow_tokenizer_class0, fast_tokenizer_class0) exist_ok)))"

subsection \<open>Notions for stating the properties\<close>

text \<open>\<open>after t m\<close> is the run \<open>m\<close> with the events \<open>t\<close> in front of its trace.\<close>

definition after :: "event list \<Rightarrow> 'a run \<Rightarrow> 'a run" where
  "after t m = (fst m, t @ snd m)"

text \<open>
  What lines 429 to 476 of \<^verbatim>\<open>from_pretrained\<close> do with the model configuration \<open>c\<close> when
  the tokenizer configuration declares no class: the class that \<open>c\<close> declares, else the
  classes registered for the type of \<open>c\<close>.
\<close>

definition resolve_with_model_config ::
  "env \<Rightarrow> pyval \<Rightarrow> config \<Rightarrow> string \<Rightarrow> pyval list \<Rightarrow> kwargs \<Rightarrow> call run" where
  "resolve_with_model_config E use_fast c name model_args kw =
     (case cfg_tokenizer_class c of
        Some n \<Rightarrow> resolve_declared E use_fast n name model_args kw
      | None \<Rightarrow> resolve_model_type E use_fast (VConfig c) name model_args kw)"


text \<open>
  The reference classes that \<open>get_configurations\<close> imports: for every architecture of the
  table and every reference name listed for it, the attribute of that name in the
  architecture's \<^verbatim>\<open>tokenizer\<close> module.
\<close>

definition reference_class_of :: "modules \<Rightarrow> string \<Rightarrow> string \<Rightarrow> py_class option" where
  "reference_class_of mods class_name key =
     (case import_module mods (''paddlenlp.transformers.'' @ class_name @ ''.tokenizer'') of
        Inl e \<Rightarrow> None
      | Inr import_class \<Rightarrow> import_class key)"

definition registered_reference_classes ::
  "modules \<Rightarrow> (string \<times> tokenizer_names) list \<Rightarrow> py_class list" where
  "registered_reference_classes mods names =
     concat (map (\<lambda>(class_name, values).
                    List.map_filter (reference_class_of mods class_name)
                      (get_mapping_tokenizers values False)) names)"

subsection \<open>A small installation\<close>

text \<open>
  Concrete classes, modules, files and registry entries on which the functions above can
  be run: every architecture has a \<^verbatim>\<open>tokenizer\<close> module that defines its reference
  classes, \<^verbatim>\<open>bert\<close> has a \<^verbatim>\<open>tokenizer_fast\<close> module as well.
\<close>

definition reference_class :: "string \<Rightarrow> string \<Rightarrow> py_class" where
  "reference_class m a =
     Class m a True False
       (if a = ''BertTokenizer'' then [''bert-base-uncased'', ''bert-base-chinese'']
        else if a = ''GPTTokenizer'' then [''gpt2-en'']
        else [])
       None"

definition BertTokenizer :: py_class where
  "BertTokenizer = reference_class ''paddlenlp.transformers.bert.tokenizer'' ''BertTokenizer''"

definition GPTTokenizer :: py_class where
  "GPTTokenizer = reference_class ''paddlenlp.transformers.gpt.tokenizer'' ''GPTTokenizer''"

definition BartTokenizer :: py_class where
  "BartTokenizer = reference_class ''paddlenlp.transformers.bart.tokenizer'' ''BartTokenizer''"

definition AlbertChineseTokenizer :: py_class where
  "AlbertChineseTokenizer =
     reference_class ''paddlenlp.transformers.albert.tokenizer'' ''AlbertChineseTokenizer''"

definition AlbertEnglishTokenizer :: py_class where
  "AlbertEnglishTokenizer =
     reference_class ''paddlenlp.transformers.albert.tokenizer'' ''AlbertEnglishTokenizer''"

definition YuanTokenizer :: py_class where
  "YuanTokenizer = reference_class ''paddlenlp.transformers.yuan.tokenizer'' ''YuanTokenizer''"

definition BertTokenizerFast :: py_class where
  "BertTokenizerFast =
     Class ''paddlenlp.transformers.bert.tokenizer_fast'' ''BertTokenizerFast'' False True []
       (Some BertTokenizer)"

definition base_fast_class :: py_class where
  "base_fast_class =
     Class ''paddlenlp.transformers.tokenizer_utils_fast'' ''PretrainedTokenizerFast''
       False True [] None"

text \<open>A user's classes: the names say the opposite of what the base classes are.\<close>

definition MyTokenizerFast :: py_class where
  "MyTokenizerFast = Class ''user'' ''MyTokenizerFast'' True False [] None"

definition MyQuickTokenizer :: py_class where
  "MyQuickTokenizer = Class ''user'' ''MyQuickTokenizer'' False True [] (Some MyTokenizerFast)"

definition example_modules :: modules where
  "example_modules name =
     (if name = ''paddlenlp''
      then Some (map_of [(''BertTokenizer'', BertTokenizer),
                         (''BertTokenizerFast'', BertTokenizerFast),
                         (''GPTTokenizer'', GPTTokenizer),
                         (''BartTokenizer'', BartTokenizer)])
      else if name = ''paddlenlp.transformers.bert.tokenizer_fast''
      then Some (map_of [(''BertTokenizerFast'', BertTokenizerFast)])
      else if endswith name ''.tokenizer''
      then Some (\<lambda>a. if endswith a ''Fast'' then None else Some (reference_class name a))
      else Some (\<lambda>a. None))"

definition BertConfig :: config_class where
  "BertConfig = ConfigClass ''paddlenlp.transformers.bert.configuration'' ''BertConfig''"

definition BartConfig :: config_class where
  "BartConfig = ConfigClass ''paddlenlp.transformers.bart.configuration'' ''BartConfig''"

definition AlbertConfig :: config_class where
  "AlbertConfig = ConfigClass ''paddlenlp.transformers.albert.configuration'' ''AlbertConfig''"

definition MyConfig :: config_class where
  "MyConfig = ConfigClass ''user'' ''MyConfig''"

definition OddConfig :: config_class where
  "OddConfig = ConfigClass ''user'' ''OddConfig''"

definition example_mapping :: lazy_mapping where
  "example_mapping =
     \<lparr>builtin_content =
        (\<lambda>k. if k = BertConfig
              then Some (OTuple [OClass BertTokenizer, OClass BertTokenizerFast])
              else if k = BartConfig then Some (OClass BartTokenizer)
              else if k = AlbertConfig
              then Some (OTuple [OTuple [OClass AlbertChineseTokenizer,
                                         OClass AlbertEnglishTokenizer], ONone])
              else None),
      extra_content = [(MyConfig, (Some MyTokenizerFast, None))]\<rparr>"

definition example_tokenizer_mapping :: tokenizer_mapping where
  "example_tokenizer_mapping =
     [([], YuanTokenizer),
      ([''bert-base-uncased'', ''bert-base-chinese''], BertTokenizer),
      ([''gpt2-en''], GPTTokenizer)]"

definition example_env :: env where
  "example_env =
     \<lparr>is_tokenizers_available = True,
      sys_modules = example_modules,
      PretrainedTokenizerFast = base_fast_class,
      model_type_to_module_name = (\<lambda>k. k),
      config_class_to_model_type =
        (\<lambda>n. if n = ''BertConfig'' then Some ''bert''
              else if n = ''BartConfig'' then Some ''bart''
              else if n = ''AlbertConfig'' then Some ''albert''
              else if n = ''MyConfig'' then Some ''my_model''
              else None),
      resolve_file_path =
        (\<lambda>name opts.
           if name \<in> set [''./saved_fast'', ''./saved_gpt'', ''./saved_both'']
           then Inr (Some (name @ ''/tokenizer_config.json''))
           else Inr None),
      json_load =
        (\<lambda>f. if f = ''./saved_fast/tokenizer_config.json''
              then Inr (JDict [(''tokenizer_class'', JStr ''BertTokenizerFast'')])
              else if f = ''./saved_gpt/tokenizer_config.json''
              then Inr (JDict [(''tokenizer_class'', JStr ''GPTTokenizer'')])
              else if f = ''./saved_both/tokenizer_config.json''
              then Inr (JDict [(''init_class'', JStr ''BertTokenizer''),
                               (''tokenizer_class'', JStr ''GPTTokenizer'')])
              else Inl (OSError f)),
      AutoConfig_from_pretrained =
        (\<lambda>name kw.
           if name = ''./bert_model''
           then Inr \<lparr>config_type = BertConfig, cfg_tokenizer_class = None\<rparr>
           else if name = ''./odd_model''
           then Inr \<lparr>config_type = OddConfig, cfg_tokenizer_class = None\<rparr>
           else Inl (OSError name)),
      tokenizer_mapping_attr = example_tokenizer_mapping,
      TOKENIZER_MAPPING = example_mapping\<rparr>"

definition albert_config :: config where
  "albert_config = \<lparr>config_type = AlbertConfig, cfg_tokenizer_class = None\<rparr>"

definition bert_config :: config where
  "bert_config = \<lparr>config_type = BertConfig, cfg_tokenizer_class = None\<rparr>"

definition bart_config :: config where
  "bart_config = \<lparr>config_type = BartConfig, cfg_tokenizer_class = None\<rparr>"

section \<open>Properties\<close>

lemmas run_defs = ret_def raise_def emit_def lift_def bind_def seq_def

subsection \<open>Running the example installation\<close>

lemmas example_defs = example_env_def example_modules_def example_mapping_def
  example_tokenizer_mapping_def BertTokenizer_def GPTTokenizer_def BartTokenizer_def
  BertTokenizerFast_def YuanTokenizer_def AlbertChineseTokenizer_def
  AlbertEnglishTokenizer_def reference_class_def BertConfig_def BartConfig_def
  AlbertConfig_def MyConfig_def OddConfig_def MyTokenizerFast_def MyQuickTokenizer_def
  base_fast_class_def

lemma example_lookup_GPTTokenizerFast:
  "tokenizer_class_from_name example_env ''GPTTokenizerFast'' = Inr None"
  by (simp add: tokenizer_class_from_name_def TOKENIZER_MAPPING_NAMES_def fast_if_def
        import_module_def example_defs)

lemma example_lookup_GPTTokenizer:
  "tokenizer_class_from_name example_env ''GPTTokenizer'' = Inr (Some GPTTokenizer)"
  by (simp add: tokenizer_class_from_name_def TOKENIZER_MAPPING_NAMES_def fast_if_def
        load_tokenizer_class_def import_module_def endswith_def example_defs)

lemma example_lookup_BertTokenizerFast:
  "tokenizer_class_from_name example_env ''BertTokenizerFast'' = Inr (Some BertTokenizerFast)"
  by (simp add: tokenizer_class_from_name_def TOKENIZER_MAPPING_NAMES_def fast_if_def
        load_tokenizer_class_def import_module_def endswith_def example_defs)


lemma example_declared_saved:
  "declared_tokenizer_class example_env VNone ''./saved_gpt'' kw =
     (Inr (VNone, JStr ''GPTTokenizer''),
      [ResolveFilePath ''./saved_gpt'', JsonLoad ''./saved_gpt/tokenizer_config.json''])"
  "declared_tokenizer_class example_env VNone ''./saved_fast'' kw =
     (Inr (VNone, JStr ''BertTokenizerFast''),
      [ResolveFilePath ''./saved_fast'', JsonLoad ''./saved_fast/tokenizer_config.json''])"
  "declared_tokenizer_class example_env VNone ''./saved_both'' kw =
     (Inr (VNone, JStr ''GPTTokenizer''),
      [ResolveFilePath ''./saved_both'', JsonLoad ''./saved_both/tokenizer_config.json''])"
  "declared_tokenizer_class example_env VNone ''./odd_model'' kw =
     (Inr (VConfig \<lparr>config_type = OddConfig, cfg_tokenizer_class = None\<rparr>, JNull),
      [ResolveFilePath ''./odd_model'', LoggerInfo not_located,
       AutoConfigFromPretrained ''./odd_model''])"
  by (simp_all add: declared_tokenizer_class_def get_tokenizer_config_def json_get_def
        dict_get_def not_located_def run_defs example_env_def)

lemma example_not_builtin:
  "''./saved_gpt'' \<notin> set (concat (map fst (tokenizer_mapping_attr example_env)))"
  "''./saved_fast'' \<notin> set (concat (map fst (tokenizer_mapping_attr example_env)))"
  "''./saved_both'' \<notin> set (concat (map fst (tokenizer_mapping_attr example_env)))"
  "''./odd_model'' \<notin> set (concat (map fst (tokenizer_mapping_attr example_env)))"
  "''./bert_model'' \<notin> set (concat (map fst (tokenizer_mapping_attr example_env)))"
  "''./albert_dir'' \<notin> set (concat (map fst (tokenizer_mapping_attr example_env)))"
  by (simp_all add: example_env_def example_tokenizer_mapping_def)

lemma example_forwarded:
  "forwarded_kwargs [] = [(''_from_auto'', VBool True)]"
  "forwarded_kwargs [(''use_fast'', VBool True)] = [(''_from_auto'', VBool True)]"
  "forwarded_kwargs [(''config'', v)] = [(''_from_auto'', VBool True)]"
  by (simp_all add: forwarded_kwargs_def)

lemma example_configurations:
  "get_configurations True example_modules = Inr example_tokenizer_mapping"
  by (simp add: get_configurations_def TOKENIZER_MAPPING_NAMES_def fast_if_def
        import_module_def getattr_def example_modules_def endswith_def reference_class_def
        example_tokenizer_mapping_def YuanTokenizer_def BertTokenizer_def GPTTokenizer_def)

lemma example_registered:
  "BertTokenizer \<in> set (registered_reference_classes example_modules
                           (TOKENIZER_MAPPING_NAMES True))"
  by (simp add: registered_reference_classes_def TOKENIZER_MAPPING_NAMES_def fast_if_def
        map_filter_simps reference_class_of_def import_module_def example_modules_def
        endswith_def reference_class_def BertTokenizer_def)

lemma example_unique_owner:
  "\<forall>c' \<in> set (registered_reference_classes example_modules (TOKENIZER_MAPPING_NAMES True)).
     ''bert-base-uncased'' \<in> set (pretrained_init_configuration c') \<longrightarrow> c' = BertTokenizer"
  by (simp add: registered_reference_classes_def TOKENIZER_MAPPING_NAMES_def fast_if_def
        map_filter_simps reference_class_of_def import_module_def example_modules_def
        endswith_def reference_class_def BertTokenizer_def)

subsection \<open>Built-in names\<close>

lemma in_update_cases:
  "(a, b) \<in> set (AList.update k v al) \<Longrightarrow> (a, b) = (k, v) \<or> (a, b) \<in> set al"
  by (induction al) (auto split: if_splits)

lemma keys_step:
  assumes "get_configurations_keys mods cn (key # keys) acc = Inr tm"
  shows "\<exists>c. reference_class_of mods cn key = Some c
           \<and> get_configurations_keys mods cn keys
               (AList.update (pretrained_init_configuration c) c acc) = Inr tm"
proof (cases "import_module mods (''paddlenlp.transformers.'' @ cn @ ''.tokenizer'')")
  case (Inl e)
  with assms show ?thesis by simp
next
  case (Inr m)
  show ?thesis
  proof (cases "m key")
    case None
    with Inr assms show ?thesis by (simp add: getattr_def)
  next
    case (Some c)
    with Inr assms show ?thesis by (simp add: getattr_def reference_class_of_def)
  qed
qed


lemma keys_origin:
  "get_configurations_keys mods cn keys acc = Inr tm \<Longrightarrow> (ns, c) \<in> set tm \<Longrightarrow>
     (ns, c) \<in> set acc
     \<or> (c \<in> set (List.map_filter (reference_class_of mods cn) keys)
         \<and> ns = pretrained_init_configuration c)"
proof (induction keys arbitrary: acc)
  case Nil
  then show ?case by simp
next
  case (Cons key keys)
  from keys_step [OF Cons.prems(1)] obtain k where
    k: "reference_class_of mods cn key = Some k"
    and rest: "get_configurations_keys mods cn keys
                 (AList.update (pretrained_init_configuration k) k acc) = Inr tm"
    by blast
  from Cons.IH [OF rest Cons.prems(2)]
  consider "(ns, c) \<in> set (AList.update (pretrained_init_configuration k) k acc)"
    | "c \<in> set (List.map_filter (reference_class_of mods cn) keys)
         \<and> ns = pretrained_init_configuration c"
    by blast
  then show ?case
  proof cases
    case 1
    from in_update_cases [OF 1] show ?thesis
      using k by (auto simp: map_filter_simps)
  next
    case 2
    then show ?thesis using k by (simp add: map_filter_simps)
  qed
qed

lemma keys_mono:
  "get_configurations_keys mods cn keys acc = Inr tm \<Longrightarrow> fst ` set acc \<subseteq> fst ` set tm"
proof (induction keys arbitrary: acc)
  case Nil
  then show ?case by simp
next
  case (Cons key keys)
  from keys_step [OF Cons.prems] obtain k where
    rest: "get_configurations_keys mods cn keys
                 (AList.update (pretrained_init_configuration k) k acc) = Inr tm"
    by blast
  from Cons.IH [OF rest] show ?case by (simp add: dom_update)
qed

lemma keys_present:
  "get_configurations_keys mods cn keys acc = Inr tm \<Longrightarrow>
   c \<in> set (List.map_filter (reference_class_of mods cn) keys) \<Longrightarrow>
   pretrained_init_configuration c \<in> fst ` set tm"
proof (induction keys arbitrary: acc)
  case Nil
  then show ?case by (simp add: map_filter_simps)
next
  case (Cons key keys)
  from keys_step [OF Cons.prems(1)] obtain k where
    k: "reference_class_of mods cn key = Some k"
    and rest: "get_configurations_keys mods cn keys
                 (AList.update (pretrained_init_configuration k) k acc) = Inr tm"
    by blast
  from Cons.prems(2) k have "c = k \<or> c \<in> set (List.map_filter (reference_class_of mods cn) keys)"
    by (simp add: map_filter_simps)
  then show ?case
  proof
    assume "c = k"
    with keys_mono [OF rest] show ?thesis by (simp add: dom_update)
  next
    assume "c \<in> set (List.map_filter (reference_class_of mods cn) keys)"
    from Cons.IH [OF rest this] show ?thesis .
  qed
qed


lemma registered_Cons:
  "set (registered_reference_classes mods ((cn, vals) # names)) =
      set (List.map_filter (reference_class_of mods cn) (get_mapping_tokenizers vals False))
      \<union> set (registered_reference_classes mods names)"
  by (simp add: registered_reference_classes_def)

lemma loop_step:
  assumes "get_configurations_loop mods ((cn, vals) # names) acc = Inr tm"
  shows "\<exists>mid. get_configurations_keys mods cn (get_mapping_tokenizers vals False) acc = Inr mid
           \<and> get_configurations_loop mods names mid = Inr tm"
  using assms
  by (cases "get_configurations_keys mods cn (get_mapping_tokenizers vals False) acc") simp_all

lemma loop_origin:
  "get_configurations_loop mods names acc = Inr tm \<Longrightarrow> (ns, c) \<in> set tm \<Longrightarrow>
     (ns, c) \<in> set acc
     \<or> (c \<in> set (registered_reference_classes mods names)
         \<and> ns = pretrained_init_configuration c)"
proof (induction names arbitrary: acc)
  case Nil
  then show ?case by simp
next
  case (Cons p names)
  obtain cn vals where p: "p = (cn, vals)" by (cases p)
  from loop_step [OF Cons.prems(1) [unfolded p]] obtain mid where
    mid: "get_configurations_keys mods cn (get_mapping_tokenizers vals False) acc = Inr mid"
    and rest: "get_configurations_loop mods names mid = Inr tm"
    by blast
  from Cons.IH [OF rest Cons.prems(2)]
  consider "(ns, c) \<in> set mid"
    | "c \<in> set (registered_reference_classes mods names)
         \<and> ns = pretrained_init_configuration c"
    by blast
  then show ?case
  proof cases
    case 1
    from keys_origin [OF mid 1] show ?thesis
      unfolding p registered_Cons by blast
  next
    case 2
    then show ?thesis unfolding p registered_Cons by blast
  qed
qed

lemma loop_mono:
  "get_configurations_loop mods names acc = Inr tm \<Longrightarrow> fst ` set acc \<subseteq> fst ` set tm"
proof (induction names arbitrary: acc)
  case Nil
  then show ?case by simp
next
  case (Cons p names)
  obtain cn vals where p: "p = (cn, vals)" by (cases p)
  from loop_step [OF Cons.prems(1) [unfolded p]] obtain mid where
    mid: "get_configurations_keys mods cn (get_mapping_tokenizers vals False) acc = Inr mid"
    and rest: "get_configurations_loop mods names mid = Inr tm"
    by blast
  from keys_mono [OF mid] Cons.IH [OF rest] show ?case by blast
qed

lemma loop_present:
  "get_configurations_loop mods names acc = Inr tm \<Longrightarrow>
   c \<in> set (registered_reference_classes mods names) \<Longrightarrow>
   pretrained_init_configuration c \<in> fst ` set tm"
proof (induction names arbitrary: acc)
  case Nil
  then show ?case by (simp add: registered_reference_classes_def)
next
  case (Cons p names)
  obtain cn vals where p: "p = (cn, vals)" by (cases p)
  from loop_step [OF Cons.prems(1) [unfolded p]] obtain mid where
    mid: "get_configurations_keys mods cn (get_mapping_tokenizers vals False) acc = Inr mid"
    and rest: "get_configurations_loop mods names mid = Inr tm"
    by blast
  from Cons.prems(2) [unfolded p registered_Cons]
  show ?case
  proof
    assume "c \<in> set (List.map_filter (reference_class_of mods cn)
                        (get_mapping_tokenizers vals False))"
    from keys_present [OF mid this] loop_mono [OF rest] show ?thesis by blast
  next
    assume "c \<in> set (registered_reference_classes mods names)"
    from Cons.IH [OF rest this] show ?thesis .
  qed
qed

lemma find_builtin_Some:
  "name \<in> set (concat (map fst tm)) \<Longrightarrow>
     \<exists>ns c. find_builtin tm name = Some c \<and> (ns, c) \<in> set tm \<and> name \<in> set ns"
proof (induction tm)
  case Nil
  then show ?case by simp
next
  case (Cons p tm)
  obtain a b where p: "p = (a, b)" by (cases p)
  show ?case
  proof (cases "name \<in> set a")
    case True
    then show ?thesis unfolding p by (intro exI [of _ a] exI [of _ b]) simp
  next
    case False
    with Cons.prems p have "name \<in> set (concat (map fst tm))" by simp
    from Cons.IH [OF this] obtain ns c where
      "find_builtin tm name = Some c" "(ns, c) \<in> set tm" "name \<in> set ns" by blast
    with False show ?thesis unfolding p by (intro exI [of _ ns] exI [of _ c]) simp
  qed
qed

text \<open>
  Claim C1. Let the table \<^verbatim>\<open>_tokenizer_mapping\<close> be what \<open>get_configurations\<close> returns, let
  \<open>c\<close> be one of the reference classes it imported and let the identifier be one of the
  pretrained identifiers \<open>c\<close> declares. Then \<open>from_pretrained\<close>, called without
  \<open>tokenizer_type\<close>, hands construction over to a registered reference class that
  declares the identifier, with the identifier, the positional arguments and the
  remaining keyword arguments; this class is \<open>c\<close> itself when no other registered
  reference class declares the identifier (identifiers are meant to be unique across the
  tokenizers; of two owners the first in table order is taken). The only event of the
  call is the log line: the tokenizer configuration file is neither resolved nor read,
  and no model configuration is fetched.
\<close>

theorem builtin_name_selects_owner_without_config:
  assumes conf: "get_configurations (is_tokenizers_available E) (sys_modules E)
                   = Inr (tokenizer_mapping_attr E)"
    and reg: "c \<in> set (registered_reference_classes (sys_modules E)
                          (TOKENIZER_MAPPING_NAMES (is_tokenizers_available E)))"
    and decl: "name \<in> set (pretrained_init_configuration c)"
    and tt: "dict_get kwargs0 ''tokenizer_type'' VNone = VNone"
  shows "\<exists>owner.
           owner \<in> set (registered_reference_classes (sys_modules E)
                          (TOKENIZER_MAPPING_NAMES (is_tokenizers_available E)))
         \<and> name \<in> set (pretrained_init_configuration owner)
         \<and> ((\<forall>c' \<in> set (registered_reference_classes (sys_modules E)
                          (TOKENIZER_MAPPING_NAMES (is_tokenizers_available E))).
                 name \<in> set (pretrained_init_configuration c') \<longrightarrow> c' = c)
              \<longrightarrow> owner = c)
         \<and> from_pretrained E name model_args kwargs0 =
             (Inr (FromPretrained owner name model_args (forwarded_kwargs kwargs0)),
              [LoggerInfo (using_message (class_repr owner) name)])"
proof -
  let ?tm = "tokenizer_mapping_attr E"
  let ?R = "registered_reference_classes (sys_modules E)
              (TOKENIZER_MAPPING_NAMES (is_tokenizers_available E))"
  have loop: "get_configurations_loop (sys_modules E)
                (TOKENIZER_MAPPING_NAMES (is_tokenizers_available E)) [] = Inr ?tm"
    using conf by (simp add: get_configurations_def)
  from loop_present [OF loop reg] have "pretrained_init_configuration c \<in> fst ` set ?tm" .
  then obtain e where e: "e \<in> set ?tm" "fst e = pretrained_init_configuration c" by auto
  from e decl have "name \<in> set (fst e)" by simp
  with e(1) have mem: "name \<in> set (concat (map fst ?tm))" by auto
  from find_builtin_Some [OF mem] obtain ns c' where
    f: "find_builtin ?tm name = Some c'" and e': "(ns, c') \<in> set ?tm" and n: "name \<in> set ns"
    by blast
  from loop_origin [OF loop e'] have r: "c' \<in> set ?R"
    and k: "ns = pretrained_init_configuration c'"
    by simp_all
  have run: "from_pretrained E name model_args kwargs0 =
             (Inr (FromPretrained c' name model_args (forwarded_kwargs kwargs0)),
              [LoggerInfo (using_message (class_repr c') name)])"
    using f mem tt by (simp add: from_pretrained_def Let_def run_defs)
  from r n k run show ?thesis by blast
qed

theorem builtin_name_selects_owner_without_config_witness:
  "BertTokenizer \<in> set (registered_reference_classes (sys_modules example_env)
                           (TOKENIZER_MAPPING_NAMES (is_tokenizers_available example_env)))
   \<and> ''bert-base-uncased'' \<in> set (pretrained_init_configuration BertTokenizer)
   \<and> dict_get [(''use_fast'', VBool True)] ''tokenizer_type'' VNone = VNone
   \<and> from_pretrained example_env ''bert-base-uncased'' [] [(''use_fast'', VBool True)] =
        (Inr (FromPretrained BertTokenizer ''bert-base-uncased'' []
                [(''_from_auto'', VBool True)]),
         [LoggerInfo (using_message (class_repr BertTokenizer) ''bert-base-uncased'')])"
proof -
  have E: "is_tokenizers_available example_env = True" "sys_modules example_env = example_modules"
    "tokenizer_mapping_attr example_env = example_tokenizer_mapping"
    by (simp_all add: example_env_def)
  have conf: "get_configurations (is_tokenizers_available example_env)
                (sys_modules example_env) = Inr (tokenizer_mapping_attr example_env)"
    unfolding E by (rule example_configurations)
  have reg: "BertTokenizer \<in> set (registered_reference_classes (sys_modules example_env)
                           (TOKENIZER_MAPPING_NAMES (is_tokenizers_available example_env)))"
    unfolding E by (rule example_registered)
  have decl: "''bert-base-uncased'' \<in> set (pretrained_init_configuration BertTokenizer)"
    by (simp add: BertTokenizer_def reference_class_def)
  have uniq: "\<forall>c' \<in> set (registered_reference_classes (sys_modules example_env)
                           (TOKENIZER_MAPPING_NAMES (is_tokenizers_available example_env))).
     ''bert-base-uncased'' \<in> set (pretrained_init_configuration c') \<longrightarrow> c' = BertTokenizer"
    unfolding E by (rule example_unique_owner)
  have tt: "dict_get [(''use_fast'', VBool True)] ''tokenizer_type'' VNone = VNone"
    by (simp add: dict_get_def)
  from builtin_name_selects_owner_without_config [OF conf reg decl tt, of "[]"]
  obtain owner where
    o: "(\<forall>c' \<in> set (registered_reference_classes (sys_modules example_env)
                           (TOKENIZER_MAPPING_NAMES (is_tokenizers_available example_env))).
           ''bert-base-uncased'' \<in> set (pretrained_init_configuration c') \<longrightarrow> c' = BertTokenizer)
        \<longrightarrow> owner = BertTokenizer"
    and run: "from_pretrained example_env ''bert-base-uncased'' [] [(''use_fast'', VBool True)] =
             (Inr (FromPretrained owner ''bert-base-uncased'' []
                     (forwarded_kwargs [(''use_fast'', VBool True)])),
              [LoggerInfo (using_message (class_repr owner) ''bert-base-uncased'')])"
    by blast
  from o uniq have "owner = BertTokenizer" by blast
  with run reg decl tt show ?thesis by (simp add: example_forwarded)
qed

subsection \<open>The declared class name\<close>







text \<open>
  The helper \<^verbatim>\<open>_get_tokenizer_class_from_config\<close> returns no class on \<^verbatim>\<open>AutoTokenizer\<close>:
  every path ends in an exception.
\<close>

lemma get_tokenizer_class_from_config_raises:
  "\<exists>e. fst (get_tokenizer_class_from_config E name config_file_path use_fast) = Inl e"
  by (auto simp add: get_tokenizer_class_from_config_def run_defs
        split: sum.splits json.splits)




text \<open>
  Claim C4. When \<^verbatim>\<open>use_fast\<close> holds and the declared name \<open>n\<close> does not end in
  \<^verbatim>\<open>Fast\<close>, the first lookup is that of \<open>n @ ''Fast''\<close>. A class found there is used. When
  that lookup finds no class, the second lookup is that of \<open>n\<close> itself, and only when this
  one finds no class either, \<^verbatim>\<open>ValueError\<close> is raised, naming \<open>n\<close>, the name tried last. An
  exception raised inside a lookup is passed on as it is.
\<close>

theorem fast_lookup_first_then_declared:
  assumes tt: "dict_get kwargs0 ''tokenizer_type'' VNone = VNone"
    and nb: "name \<notin> set (concat (map fst (tokenizer_mapping_attr E)))"
    and decl: "declared_tokenizer_class E (dict_get kwargs0 ''config'' VNone) name
                 (forwarded_kwargs kwargs0) = (Inr (config, JStr n), t)"
    and uf: "truthy (dict_get kwargs0 ''use_fast'' (VBool False))"
    and nf: "\<not> endswith n ''Fast''"
  shows "from_pretrained E name model_args kwargs0 =
          (case tokenizer_class_from_name E (n @ ''Fast'') of
             Inl e \<Rightarrow> (Inl e, t @ [TokenizerClassFromName (n @ ''Fast'')])
           | Inr (Some c) \<Rightarrow>
               (Inr (FromPretrained c name model_args (forwarded_kwargs kwargs0)),
                t @ [TokenizerClassFromName (n @ ''Fast'')])
           | Inr None \<Rightarrow>
              (case tokenizer_class_from_name E n of
                 Inl e \<Rightarrow>
                   (Inl e, t @ [TokenizerClassFromName (n @ ''Fast''),
                                TokenizerClassFromName n])
               | Inr (Some c) \<Rightarrow>
                   (Inr (FromPretrained c name model_args (forwarded_kwargs kwargs0)),
                    t @ [TokenizerClassFromName (n @ ''Fast''), TokenizerClassFromName n])
               | Inr None \<Rightarrow>
                   (Inl (ValueError (''Tokenizer class '' @ n
                           @ '' does not exist or is not currently imported.'')),
                    t @ [TokenizerClassFromName (n @ ''Fast''),
                         TokenizerClassFromName n])))"
  using tt nb decl uf nf
  by (simp add: from_pretrained_def Let_def resolve_declared_def run_defs
        split: sum.splits option.splits)

theorem fast_lookup_first_then_declared_witness:
  "dict_get [(''use_fast'', VBool True)] ''tokenizer_type'' VNone = VNone
   \<and> ''./saved_gpt'' \<notin> set (concat (map fst (tokenizer_mapping_attr example_env)))
   \<and> declared_tokenizer_class example_env
        (dict_get [(''use_fast'', VBool True)] ''config'' VNone) ''./saved_gpt''
        (forwarded_kwargs [(''use_fast'', VBool True)]) =
        (Inr (VNone, JStr ''GPTTokenizer''),
         [ResolveFilePath ''./saved_gpt'', JsonLoad ''./saved_gpt/tokenizer_config.json''])
   \<and> truthy (dict_get [(''use_fast'', VBool True)] ''use_fast'' (VBool False))
   \<and> \<not> endswith ''GPTTokenizer'' ''Fast''
   \<and> tokenizer_class_from_name example_env ''GPTTokenizerFast'' = Inr None
   \<and> from_pretrained example_env ''./saved_gpt'' [] [(''use_fast'', VBool True)] =
        (Inr (FromPretrained GPTTokenizer ''./saved_gpt'' [] [(''_from_auto'', VBool True)]),
         [ResolveFilePath ''./saved_gpt'', JsonLoad ''./saved_gpt/tokenizer_config.json'',
          TokenizerClassFromName ''GPTTokenizerFast'', TokenizerClassFromName ''GPTTokenizer''])"
proof -
  let ?kw = "[(''use_fast'', VBool True)]"
  have tt: "dict_get ?kw ''tokenizer_type'' VNone = VNone" by (simp add: dict_get_def)
  have c: "dict_get ?kw ''config'' VNone = VNone" by (simp add: dict_get_def)
  have decl: "declared_tokenizer_class example_env (dict_get ?kw ''config'' VNone)
       ''./saved_gpt'' (forwarded_kwargs ?kw) =
        (Inr (VNone, JStr ''GPTTokenizer''),
         [ResolveFilePath ''./saved_gpt'', JsonLoad ''./saved_gpt/tokenizer_config.json''])"
    unfolding c by (rule example_declared_saved)
  have uf: "truthy (dict_get ?kw ''use_fast'' (VBool False))" by (simp add: dict_get_def)
  have nf: "\<not> endswith ''GPTTokenizer'' ''Fast''" by (simp add: endswith_def)
  show ?thesis
    using tt decl uf nf example_not_builtin(1) example_lookup_GPTTokenizerFast
      fast_lookup_first_then_declared [OF tt example_not_builtin(1) decl uf nf, of "[]"]
    by (simp add: example_lookup_GPTTokenizer example_forwarded)
qed

text \<open>
  Claim C5. A declared name that already ends in \<^verbatim>\<open>Fast\<close> is looked up as it is, once,
  whatever \<^verbatim>\<open>use_fast\<close> says (and so is every declared name when \<^verbatim>\<open>use_fast\<close> does not
  hold): the class found under the literal name is the one construction is handed to.
\<close>

theorem declared_name_looked_up_literally:
  assumes tt: "dict_get kwargs0 ''tokenizer_type'' VNone = VNone"
    and nb: "name \<notin> set (concat (map fst (tokenizer_mapping_attr E)))"
    and decl: "declared_tokenizer_class E (dict_get kwargs0 ''config'' VNone) name
                 (forwarded_kwargs kwargs0) = (Inr (config, JStr n), t)"
    and lit: "endswith n ''Fast'' \<or> \<not> truthy (dict_get kwargs0 ''use_fast'' (VBool False))"
  shows "from_pretrained E name model_args kwargs0 =
          (case tokenizer_class_from_name E n of
             Inl e \<Rightarrow> (Inl e, t @ [TokenizerClassFromName n])
           | Inr (Some c) \<Rightarrow>
               (Inr (FromPretrained c name model_args (forwarded_kwargs kwargs0)),
                t @ [TokenizerClassFromName n])
           | Inr None \<Rightarrow>
               (Inl (ValueError (''Tokenizer class '' @ n
                       @ '' does not exist or is not currently imported.'')),
                t @ [TokenizerClassFromName n]))"
  using tt nb decl lit
  by (auto simp add: from_pretrained_def Let_def resolve_declared_def run_defs
        split: sum.splits option.splits)

theorem declared_name_looked_up_literally_witness:
  "dict_get [] ''tokenizer_type'' VNone = VNone
   \<and> ''./saved_fast'' \<notin> set (concat (map fst (tokenizer_mapping_attr example_env)))
   \<and> declared_tokenizer_class example_env (dict_get [] ''config'' VNone) ''./saved_fast''
        (forwarded_kwargs []) =
        (Inr (VNone, JStr ''BertTokenizerFast''),
         [ResolveFilePath ''./saved_fast'', JsonLoad ''./saved_fast/tokenizer_config.json''])
   \<and> endswith ''BertTokenizerFast'' ''Fast''
   \<and> \<not> truthy (dict_get [] ''use_fast'' (VBool False))
   \<and> from_pretrained example_env ''./saved_fast'' [] [] =
        (Inr (FromPretrained BertTokenizerFast ''./saved_fast'' []
                [(''_from_auto'', VBool True)]),
         [ResolveFilePath ''./saved_fast'', JsonLoad ''./saved_fast/tokenizer_config.json'',
          TokenizerClassFromName ''BertTokenizerFast''])"
proof -
  have tt: "dict_get ([] :: kwargs) ''tokenizer_type'' VNone = VNone"
    by (simp add: dict_get_def)
  have c: "dict_get ([] :: kwargs) ''config'' VNone = VNone" by (simp add: dict_get_def)
  have decl: "declared_tokenizer_class example_env (dict_get [] ''config'' VNone)
       ''./saved_fast'' (forwarded_kwargs []) =
        (Inr (VNone, JStr ''BertTokenizerFast''),
         [ResolveFilePath ''./saved_fast'', JsonLoad ''./saved_fast/tokenizer_config.json''])"
    unfolding c by (rule example_declared_saved)
  have e: "endswith ''BertTokenizerFast'' ''Fast''" by (simp add: endswith_def)
  have uf: "\<not> truthy (dict_get ([] :: kwargs) ''use_fast'' (VBool False))"
    by (simp add: dict_get_def)
  have lit: "endswith ''BertTokenizerFast'' ''Fast''
             \<or> \<not> truthy (dict_get ([] :: kwargs) ''use_fast'' (VBool False))"
    using e by simp
  show ?thesis
    using tt decl e uf example_not_builtin(2)
      declared_name_looked_up_literally [OF tt example_not_builtin(2) decl lit, of "[]"]
    by (simp add: example_lookup_BertTokenizerFast example_forwarded)
qed

subsection \<open>Selection by the type of the model configuration\<close>

text \<open>
  Claim C3 does not hold of the code where the reference slot holds a single class. The
  test \<^verbatim>\<open>isinstance(tokenizer_class_py, str)\<close> is false for a class object, so the branch
  for a collection runs and evaluates \<^verbatim>\<open>tokenizer_class_py[0]\<close>, which raises \<^verbatim>\<open>TypeError\<close>.
  In the example installation \<open>BertConfig\<close> maps to the pair of \<open>BertTokenizer\<close> and
  \<open>BertTokenizerFast\<close> and \<open>BartConfig\<close> to the single class \<open>BartTokenizer\<close>; without
  \<^verbatim>\<open>use_fast\<close> both calls end in \<^verbatim>\<open>TypeError\<close> instead of using the reference class.
\<close>

theorem from_pretrained_single_reference_class_raises:
  "from_pretrained example_env ''./bert_model'' [] [] =
     (Inl (TypeError ''object is not subscriptable''),
      [ResolveFilePath ''./bert_model'', LoggerInfo not_located,
       AutoConfigFromPretrained ''./bert_model'', MappingGetItem BertConfig])
   \<and> from_pretrained example_env ''./bart_dir'' [] [(''config'', VConfig bart_config)] =
     (Inl (TypeError ''object is not subscriptable''),
      [ResolveFilePath ''./bart_dir'', LoggerInfo not_located, MappingGetItem BartConfig])"
  by (simp add: from_pretrained_def Let_def declared_tokenizer_class_def
        get_tokenizer_config_def json_get_def dict_get_def forwarded_kwargs_def
        resolve_model_type_def mapping_getitem_def unpack_py_fast_def getitem0_def
        not_located_def run_defs bart_config_def
        example_env_def example_mapping_def example_tokenizer_mapping_def
        BertConfig_def BartConfig_def MyConfig_def)

text \<open>
  The same for every environment: a single class in the reference slot, with the fast
  branch not taken, ends in \<^verbatim>\<open>TypeError\<close>.
\<close>

theorem single_reference_class_not_used:
  assumes mt: "config_class_to_model_type E (cfg_name (type_of config)) = Some model_type"
    and v: "mapping_getitem (TOKENIZER_MAPPING E) (type_of config) = Inr v"
    and single: "v = OClass c
                 \<or> (v = OTuple [OClass c, tokenizer_class_fast]
                    \<and> \<not> (truthy_obj tokenizer_class_fast \<and> truthy use_fast))"
  shows "resolve_model_type E use_fast config name model_args kw =
           (Inl (TypeError ''object is not subscriptable''),
            [MappingGetItem (type_of config)])"
  using mt v single
  by (auto simp add: resolve_model_type_def unpack_py_fast_def getitem0_def run_defs)

theorem single_reference_class_not_used_witness:
  "config_class_to_model_type example_env (cfg_name (type_of (VConfig bert_config)))
     = Some ''bert''
   \<and> mapping_getitem (TOKENIZER_MAPPING example_env) (type_of (VConfig bert_config)) =
       Inr (OTuple [OClass BertTokenizer, OClass BertTokenizerFast])
   \<and> \<not> (truthy_obj (OClass BertTokenizerFast) \<and> truthy (VBool False))
   \<and> resolve_model_type example_env (VBool False) (VConfig bert_config) ''./bert_model'' []
        [(''_from_auto'', VBool True)] =
       (Inl (TypeError ''object is not subscriptable''), [MappingGetItem BertConfig])"
proof -
  have mt: "config_class_to_model_type example_env (cfg_name (type_of (VConfig bert_config)))
     = Some ''bert''"
    by (simp add: example_env_def bert_config_def BertConfig_def)
  have v: "mapping_getitem (TOKENIZER_MAPPING example_env) (type_of (VConfig bert_config)) =
       Inr (OTuple [OClass BertTokenizer, OClass BertTokenizerFast])"
    by (simp add: mapping_getitem_def example_env_def example_mapping_def bert_config_def
          BertConfig_def MyConfig_def)
  have single: "OTuple [OClass BertTokenizer, OClass BertTokenizerFast] = OClass BertTokenizer
      \<or> (OTuple [OClass BertTokenizer, OClass BertTokenizerFast]
            = OTuple [OClass BertTokenizer, OClass BertTokenizerFast]
          \<and> \<not> (truthy_obj (OClass BertTokenizerFast) \<and> truthy (VBool False)))"
    by simp
  show ?thesis
    using mt v
      single_reference_class_not_used [OF mt v single, of "''./bert_model''" "[]"
        "[(''_from_auto'', VBool True)]"]
    by (simp add: bert_config_def)
qed

text \<open>
  The other branches of the policy are as claim C3 says: the fast class when there is one
  and \<^verbatim>\<open>use_fast\<close> holds or the reference slot is empty; the first class of a collection,
  announced by \<^verbatim>\<open>print\<close>; \<^verbatim>\<open>ValueError\<close> when both slots are empty.
\<close>

lemma model_type_policy_other_branches:
  assumes "config_class_to_model_type E (cfg_name (type_of config)) = Some model_type"
  shows "mapping_getitem (TOKENIZER_MAPPING E) (type_of config) = Inr (OTuple [py, OClass f])
           \<Longrightarrow> truthy use_fast \<or> py = ONone
           \<Longrightarrow> resolve_model_type E use_fast config name model_args kw =
                 (Inr (FromPretrained f name model_args kw), [MappingGetItem (type_of config)])"
    and "mapping_getitem (TOKENIZER_MAPPING E) (type_of config)
           = Inr (OTuple [OTuple (OClass c # cs), fast])
           \<Longrightarrow> \<not> (truthy_obj fast \<and> truthy use_fast)
           \<Longrightarrow> resolve_model_type E use_fast config name model_args kw =
                 (Inr (FromPretrained c name model_args kw),
                  [MappingGetItem (type_of config),
                   Print (using_message (class_repr c) name)])"
    and "mapping_getitem (TOKENIZER_MAPPING E) (type_of config) = Inr (OTuple [ONone, ONone])
           \<Longrightarrow> resolve_model_type E use_fast config name model_args kw =
                 (Inl (ValueError
                    ''This tokenizer cannot be instantiated. Please make sure you have `sentencepiece` installed in order to use this tokenizer.''),
                  [MappingGetItem (type_of config)])"
  using assms
  by (auto simp add: resolve_model_type_def unpack_py_fast_def getitem0_def
        obj_from_pretrained_def obj_repr_def run_defs)

subsection \<open>A missing tokenizer configuration file\<close>

text \<open>
  Claim C8. When \<^verbatim>\<open>resolve_file_path\<close> finds no tokenizer configuration file (it returns
  \<^verbatim>\<open>None\<close>), \<open>get_tokenizer_config\<close> returns the empty dictionary, and \<open>from_pretrained\<close>
  goes on with the model configuration: the one the caller passed, or else the one it
  fetches with \<^verbatim>\<open>AutoConfig.from_pretrained\<close>; from there the result is that of the
  resolution with this model configuration.
\<close>

theorem missing_tokenizer_config_is_empty:
  assumes rf: "resolve_file_path E name (fetch_options (forwarded_kwargs kwargs0)) = Inr None"
    and tt: "dict_get kwargs0 ''tokenizer_type'' VNone = VNone"
    and nb: "name \<notin> set (concat (map fst (tokenizer_mapping_attr E)))"
  shows "get_tokenizer_config E name (forwarded_kwargs kwargs0) =
           (Inr (JDict []), [ResolveFilePath name, LoggerInfo not_located])
       \<and> from_pretrained E name model_args kwargs0 =
           after [ResolveFilePath name, LoggerInfo not_located]
             (case dict_get kwargs0 ''config'' VNone of
                VConfig c \<Rightarrow>
                  resolve_with_model_config E (dict_get kwargs0 ''use_fast'' (VBool False)) c
                    name model_args (forwarded_kwargs kwargs0)
              | _ \<Rightarrow>
                  after [AutoConfigFromPretrained name]
                    (case AutoConfig_from_pretrained E name (forwarded_kwargs kwargs0) of
                       Inl e \<Rightarrow> raise e
                     | Inr c \<Rightarrow>
                         resolve_with_model_config E
                           (dict_get kwargs0 ''use_fast'' (VBool False)) c
                           name model_args (forwarded_kwargs kwargs0)))"
proof
  show g: "get_tokenizer_config E name (forwarded_kwargs kwargs0) =
           (Inr (JDict []), [ResolveFilePath name, LoggerInfo not_located])"
    using rf by (simp add: get_tokenizer_config_def not_located_def run_defs)
  show "from_pretrained E name model_args kwargs0 =
           after [ResolveFilePath name, LoggerInfo not_located]
             (case dict_get kwargs0 ''config'' VNone of
                VConfig c \<Rightarrow>
                  resolve_with_model_config E (dict_get kwargs0 ''use_fast'' (VBool False)) c
                    name model_args (forwarded_kwargs kwargs0)
              | _ \<Rightarrow>
                  after [AutoConfigFromPretrained name]
                    (case AutoConfig_from_pretrained E name (forwarded_kwargs kwargs0) of
                       Inl e \<Rightarrow> raise e
                     | Inr c \<Rightarrow>
                         resolve_with_model_config E
                           (dict_get kwargs0 ''use_fast'' (VBool False)) c
                           name model_args (forwarded_kwargs kwargs0)))"
    using tt nb
    by (auto simp add: from_pretrained_def Let_def declared_tokenizer_class_def g
          json_get_def dict_get_def after_def resolve_with_model_config_def run_defs
          split: pyval.splits sum.splits option.splits prod.splits)
qed

theorem missing_tokenizer_config_is_empty_witness:
  "resolve_file_path example_env ''./albert_dir''
     (fetch_options (forwarded_kwargs [(''config'', VConfig albert_config)])) = Inr None
   \<and> dict_get [(''config'', VConfig albert_config)] ''tokenizer_type'' VNone = VNone
   \<and> ''./albert_dir'' \<notin> set (concat (map fst (tokenizer_mapping_attr example_env)))
   \<and> get_tokenizer_config example_env ''./albert_dir''
        (forwarded_kwargs [(''config'', VConfig albert_config)]) =
        (Inr (JDict []), [ResolveFilePath ''./albert_dir'', LoggerInfo not_located])
   \<and> from_pretrained example_env ''./albert_dir'' [] [(''config'', VConfig albert_config)] =
        (Inr (FromPretrained AlbertChineseTokenizer ''./albert_dir'' []
                [(''_from_auto'', VBool True)]),
         [ResolveFilePath ''./albert_dir'', LoggerInfo not_located,
          MappingGetItem AlbertConfig,
          Print (using_message (class_repr AlbertChineseTokenizer) ''./albert_dir'')])"
proof -
  let ?kw = "[(''config'', VConfig albert_config)]"
  have rf: "resolve_file_path example_env ''./albert_dir''
              (fetch_options (forwarded_kwargs ?kw)) = Inr None"
    by (simp add: example_env_def)
  have tt: "dict_get ?kw ''tokenizer_type'' VNone = VNone" by (simp add: dict_get_def)
  have c: "dict_get ?kw ''config'' VNone = VConfig albert_config" by (simp add: dict_get_def)
  have uf: "dict_get ?kw ''use_fast'' (VBool False) = VBool False" by (simp add: dict_get_def)
  have m: "resolve_model_type example_env (VBool False) (VConfig albert_config)
             ''./albert_dir'' [] [(''_from_auto'', VBool True)] =
           (Inr (FromPretrained AlbertChineseTokenizer ''./albert_dir'' []
                   [(''_from_auto'', VBool True)]),
            [MappingGetItem AlbertConfig,
             Print (using_message (class_repr AlbertChineseTokenizer) ''./albert_dir'')])"
    by (simp add: resolve_model_type_def albert_config_def mapping_getitem_def
          unpack_py_fast_def getitem0_def obj_from_pretrained_def obj_repr_def run_defs
          example_env_def example_mapping_def AlbertConfig_def MyConfig_def BertConfig_def
          BartConfig_def)
  have n: "cfg_tokenizer_class albert_config = None" by (simp add: albert_config_def)
  have f: "forwarded_kwargs ?kw = [(''_from_auto'', VBool True)]"
    by (rule example_forwarded)
  show ?thesis
    using rf tt example_not_builtin(6)
      missing_tokenizer_config_is_empty [OF rf tt example_not_builtin(6), of "[]"]
    by (simp add: c uf m n f after_def resolve_with_model_config_def)
qed

subsection \<open>No class can be derived\<close>

text \<open>
  Claim C9. When the identifier is not a built-in name, neither the tokenizer configuration
  nor the model configuration declares a class, and the type of the model configuration
  has no model type, \<open>from_pretrained\<close> raises \<^verbatim>\<open>RuntimeError\<close>. Its message contains the
  identifier and lists the three accepted forms: a built-in model identifier, a
  community-contributed model identifier, a path to a directory.
\<close>

theorem unknown_model_type_cannot_load:
  assumes tt: "dict_get kwargs0 ''tokenizer_type'' VNone = VNone"
    and nb: "name \<notin> set (concat (map fst (tokenizer_mapping_attr E)))"
    and decl: "declared_tokenizer_class E (dict_get kwargs0 ''config'' VNone) name
                 (forwarded_kwargs kwargs0) = (Inr (config, JNull), t)"
    and mt: "config_class_to_model_type E (cfg_name (type_of config)) = None"
  shows "from_pretrained E name model_args kwargs0 =
           (Inl (RuntimeError (cannot_load_message name)), t)
       \<and> sublist name (cannot_load_message name)
       \<and> sublist ''built-in pretrained models'' (cannot_load_message name)
       \<and> sublist ''community-contributed pretrained models'' (cannot_load_message name)
       \<and> sublist ''path to a directory'' (cannot_load_message name)"
proof (intro conjI)
  show "from_pretrained E name model_args kwargs0 =
           (Inl (RuntimeError (cannot_load_message name)), t)"
    using tt nb decl mt
    by (simp add: from_pretrained_def Let_def resolve_model_type_def run_defs)
  show "sublist name (cannot_load_message name)"
    unfolding cannot_load_message_def sublist_def by (metis append.assoc)
  show "sublist ''built-in pretrained models'' (cannot_load_message name)"
    unfolding cannot_load_message_def sublist_def
    apply (rule exI [of _ "''Can'' @ apos @ ''t load tokenizer for '' @ apos @ name @ apos @ ''.'' @ newline
     @ ''Please make sure that '' @ apos @ name @ apos @ '' is:'' @ newline
     @ ''- a correct model-identifier of ''"])
    apply (rule exI [of _ "'','' @ newline
     @ ''- or a correct model-identifier of community-contributed pretrained models,'' @ newline
     @ ''- or the correct path to a directory containing relevant tokenizer files.'' @ newline"])
    apply simp
    done
  show "sublist ''community-contributed pretrained models'' (cannot_load_message name)"
    unfolding cannot_load_message_def sublist_def
    apply (rule exI [of _ "''Can'' @ apos @ ''t load tokenizer for '' @ apos @ name @ apos @ ''.'' @ newline
     @ ''Please make sure that '' @ apos @ name @ apos @ '' is:'' @ newline
     @ ''- a correct model-identifier of built-in pretrained models,'' @ newline
     @ ''- or a correct model-identifier of ''"])
    apply (rule exI [of _ "'','' @ newline
     @ ''- or the correct path to a directory containing relevant tokenizer files.'' @ newline"])
    apply simp
    done
  show "sublist ''path to a directory'' (cannot_load_message name)"
    unfolding cannot_load_message_def sublist_def
    apply (rule exI [of _ "''Can'' @ apos @ ''t load tokenizer for '' @ apos @ name @ apos @ ''.'' @ newline
     @ ''Please make sure that '' @ apos @ name @ apos @ '' is:'' @ newline
     @ ''- a correct model-identifier of built-in pretrained models,'' @ newline
     @ ''- or a correct model-identifier of community-contributed pretrained models,'' @ newline
     @ ''- or the correct ''"])
    apply (rule exI [of _ "'' containing relevant tokenizer files.'' @ newline"])
    apply simp
    done
qed

theorem unknown_model_type_cannot_load_witness:
  "dict_get [] ''tokenizer_type'' VNone = VNone
   \<and> ''./odd_model'' \<notin> set (concat (map fst (tokenizer_mapping_attr example_env)))
   \<and> declared_tokenizer_class example_env (dict_get [] ''config'' VNone) ''./odd_model''
        (forwarded_kwargs []) =
        (Inr (VConfig \<lparr>config_type = OddConfig, cfg_tokenizer_class = None\<rparr>, JNull),
         [ResolveFilePath ''./odd_model'', LoggerInfo not_located,
          AutoConfigFromPretrained ''./odd_model''])
   \<and> config_class_to_model_type example_env
        (cfg_name (type_of (VConfig \<lparr>config_type = OddConfig, cfg_tokenizer_class = None\<rparr>)))
        = None
   \<and> from_pretrained example_env ''./odd_model'' [] [] =
        (Inl (RuntimeError (cannot_load_message ''./odd_model'')),
         [ResolveFilePath ''./odd_model'', LoggerInfo not_located,
          AutoConfigFromPretrained ''./odd_model''])
   \<and> sublist ''./odd_model'' (cannot_load_message ''./odd_model'')"
proof -
  have tt: "dict_get ([] :: kwargs) ''tokenizer_type'' VNone = VNone"
    by (simp add: dict_get_def)
  have c: "dict_get ([] :: kwargs) ''config'' VNone = VNone" by (simp add: dict_get_def)
  have decl: "declared_tokenizer_class example_env (dict_get [] ''config'' VNone)
       ''./odd_model'' (forwarded_kwargs []) =
        (Inr (VConfig \<lparr>config_type = OddConfig, cfg_tokenizer_class = None\<rparr>, JNull),
         [ResolveFilePath ''./odd_model'', LoggerInfo not_located,
          AutoConfigFromPretrained ''./odd_model''])"
    unfolding c by (rule example_declared_saved)
  have mt: "config_class_to_model_type example_env
        (cfg_name (type_of (VConfig \<lparr>config_type = OddConfig, cfg_tokenizer_class = None\<rparr>)))
        = None"
    by (simp add: example_env_def OddConfig_def)
  show ?thesis
    using tt decl mt example_not_builtin(4)
      unknown_model_type_cannot_load [OF tt example_not_builtin(4) decl mt, of "[]"]
    by simp
qed

subsection \<open>The \<open>tokenizer_type\<close> keyword\<close>

text \<open>
  Claim C10. A call of \<open>from_pretrained\<close> whose keyword arguments hold a \<open>tokenizer_type\<close>
  other than \<^verbatim>\<open>None\<close> raises \<^verbatim>\<open>NotImplementedError\<close>, and the trace of the call is empty:
  no built-in lookup was logged, no file was resolved, no model configuration was fetched,
  no class was looked up and no entry of \<open>TOKENIZER_MAPPING\<close> was loaded. The function
  has no other way to touch the registries, which it only reads.
\<close>

theorem tokenizer_type_not_implemented:
  assumes "dict_get kwargs0 ''tokenizer_type'' VNone \<noteq> VNone"
  shows "from_pretrained E name model_args kwargs0 =
           (Inl (NotImplementedError ''tokenizer_type is not supported yet.''), [])"
  using assms by (simp add: from_pretrained_def Let_def raise_def)

theorem tokenizer_type_not_implemented_witness:
  "dict_get [(''tokenizer_type'', VStr ''bert'')] ''tokenizer_type'' VNone \<noteq> VNone
   \<and> from_pretrained example_env ''bert-base-uncased'' []
        [(''tokenizer_type'', VStr ''bert'')] =
           (Inl (NotImplementedError ''tokenizer_type is not supported yet.''), [])"
proof -
  have h: "dict_get [(''tokenizer_type'', VStr ''bert'')] ''tokenizer_type'' VNone \<noteq> VNone"
    by (simp add: dict_get_def)
  show ?thesis
    using h tokenizer_type_not_implemented [OF h, of example_env "''bert-base-uncased''" "[]"]
    by simp
qed

subsection \<open>Registration\<close>

text \<open>
  Claim C7. \<open>register\<close> raises \<^verbatim>\<open>ValueError\<close> when neither class is passed, when the class
  in the slow slot is a subclass of \<^verbatim>\<open>PretrainedTokenizerFast\<close>, and when the class in the
  fast slot is a subclass of \<^verbatim>\<open>PretrainedTokenizer\<close>. Only the subclass relation counts:
  a class that is not such a subclass passes these checks and reaches the registration in
  the table, whatever its name is.
\<close>

theorem register_rejects_wrong_capability:
  "register M k None None ok =
      Inl (ValueError
        ''You need to pass either a `slow_tokenizer_class` or a `fast_tokenizer_class'')
   \<and> (sub_PretrainedTokenizerFast s \<longrightarrow>
        register M k (Some s) fast ok =
          Inl (ValueError ''You passed a fast tokenizer in the `slow_tokenizer_class`.''))
   \<and> (sub_PretrainedTokenizer f \<longrightarrow>
        register M k slow (Some f) ok =
          Inl (ValueError
            (if (case slow of Some s' \<Rightarrow> sub_PretrainedTokenizerFast s' | None \<Rightarrow> False)
             then ''You passed a fast tokenizer in the `slow_tokenizer_class`.''
             else ''You passed a slow tokenizer in the `fast_tokenizer_class`.'')))
   \<and> (\<not> sub_PretrainedTokenizerFast s \<longrightarrow>
        register M k (Some s) None ok =
          mapping_register M k
            (Some s, case map_of (extra_content M) k of None \<Rightarrow> None | Some (es, ef) \<Rightarrow> ef)
            ok)
   \<and> (\<not> sub_PretrainedTokenizer f \<longrightarrow>
        register M k None (Some f) ok =
          mapping_register M k
            (case map_of (extra_content M) k of None \<Rightarrow> None | Some (es, ef) \<Rightarrow> es, Some f)
            ok)"
  by (auto simp add: register_def split: option.splits)

theorem register_rejects_wrong_capability_witness:
  "sub_PretrainedTokenizerFast MyQuickTokenizer
   \<and> register example_mapping OddConfig (Some MyQuickTokenizer) None False =
          Inl (ValueError ''You passed a fast tokenizer in the `slow_tokenizer_class`.'')
   \<and> sub_PretrainedTokenizer MyTokenizerFast
   \<and> register example_mapping OddConfig None (Some MyTokenizerFast) False =
          Inl (ValueError ''You passed a slow tokenizer in the `fast_tokenizer_class`.'')
   \<and> \<not> sub_PretrainedTokenizerFast MyTokenizerFast
   \<and> register example_mapping OddConfig (Some MyTokenizerFast) None False =
          Inr (example_mapping\<lparr>extra_content :=
                 [(MyConfig, (Some MyTokenizerFast, None)),
                  (OddConfig, (Some MyTokenizerFast, None))]\<rparr>)"
  using register_rejects_wrong_capability
          [of example_mapping OddConfig False MyQuickTokenizer None MyTokenizerFast None]
        register_rejects_wrong_capability
          [of example_mapping OddConfig False MyTokenizerFast None MyTokenizerFast None]
  by (simp add: MyQuickTokenizer_def MyTokenizerFast_def mapping_register_def
        example_mapping_def OddConfig_def MyConfig_def BertConfig_def BartConfig_def
        AlbertConfig_def)

text \<open>
  Claim C6, as the code has it. The slot that is not passed is carried over when the
  configuration class has an entry in \<^verbatim>\<open>_extra_content\<close>, the entries registered at run
  time: the pair handed to the table is the passed class together with the other class of
  that entry, and after a registration that succeeds a lookup returns this pair.
\<close>

theorem register_carries_over_registered_slot:
  assumes "map_of (extra_content M) k = Some (existing_slow, existing_fast)"
  shows "(\<not> sub_PretrainedTokenizer f \<longrightarrow>
            register M k None (Some f) ok =
              mapping_register M k (existing_slow, Some f) ok)
       \<and> (\<not> sub_PretrainedTokenizerFast s \<longrightarrow>
            register M k (Some s) None ok =
              mapping_register M k (Some s, existing_fast) ok)
       \<and> (\<forall>v M'. mapping_register M k v ok = Inr M' \<longrightarrow>
            mapping_getitem M' k = Inr (OTuple [obj_of (fst v), obj_of (snd v)]))"
  using assms
  by (auto simp add: register_def mapping_register_def mapping_getitem_def update_conv'
        split: option.splits if_splits)

theorem register_carries_over_registered_slot_witness:
  "map_of (extra_content example_mapping) MyConfig = Some (Some MyTokenizerFast, None)
   \<and> \<not> sub_PretrainedTokenizer MyQuickTokenizer
   \<and> register example_mapping MyConfig None (Some MyQuickTokenizer) False =
       Inr (example_mapping\<lparr>extra_content :=
              [(MyConfig, (Some MyTokenizerFast, Some MyQuickTokenizer))]\<rparr>)
   \<and> mapping_getitem
       (example_mapping\<lparr>extra_content :=
              [(MyConfig, (Some MyTokenizerFast, Some MyQuickTokenizer))]\<rparr>) MyConfig =
       Inr (OTuple [OClass MyTokenizerFast, OClass MyQuickTokenizer])"
proof -
  have h: "map_of (extra_content example_mapping) MyConfig = Some (Some MyTokenizerFast, None)"
    by (simp add: example_mapping_def)
  have r: "mapping_register example_mapping MyConfig
             (Some MyTokenizerFast, Some MyQuickTokenizer) False
     = Inr (example_mapping\<lparr>extra_content :=
              [(MyConfig, (Some MyTokenizerFast, Some MyQuickTokenizer))]\<rparr>)"
    by (simp add: mapping_register_def example_mapping_def MyConfig_def BertConfig_def
          BartConfig_def AlbertConfig_def)
  show ?thesis
    using h r
      register_carries_over_registered_slot [OF h, of MyQuickTokenizer False MyTokenizerFast]
    by (simp add: MyQuickTokenizer_def obj_of_def)
qed

text \<open>
  Claim C6 as stated fails for an entry that is in the table without having been
  registered at run time. \<open>BertConfig\<close> has a built-in entry with the reference class
  \<open>BertTokenizer\<close>; registering only a fast class for it, with \<^verbatim>\<open>exist_ok\<close>, stores a pair
  whose slow slot is \<^verbatim>\<open>None\<close>, and that pair is what a lookup returns afterwards.
\<close>

theorem register_builtin_entry_not_carried_over:
  "mapping_getitem example_mapping BertConfig =
      Inr (OTuple [OClass BertTokenizer, OClass BertTokenizerFast])
   \<and> register example_mapping BertConfig None (Some MyQuickTokenizer) True =
      Inr (example_mapping\<lparr>extra_content :=
             [(MyConfig, (Some MyTokenizerFast, None)),
              (BertConfig, (None, Some MyQuickTokenizer))]\<rparr>)
   \<and> mapping_getitem
      (example_mapping\<lparr>extra_content :=
             [(MyConfig, (Some MyTokenizerFast, None)),
              (BertConfig, (None, Some MyQuickTokenizer))]\<rparr>) BertConfig =
      Inr (OTuple [ONone, OClass MyQuickTokenizer])"
  by (simp add: mapping_getitem_def register_def mapping_register_def example_mapping_def
        BertConfig_def MyConfig_def MyQuickTokenizer_def obj_of_def)

end
